theory Spec2Isabelle
  imports Main "HOL-Library.Word"
begin

section \<open>mcp-vision: the image ingestion pipeline of \<^verbatim>\<open>src/index.ts\<close>\<close>

text \<open>
  A shallow embedding of \<^verbatim>\<open>src/index.ts\<close>. JavaScript strings are modelled as
  \<^typ>\<open>string\<close> (one \<^typ>\<open>char\<close> per code unit, so references and payloads are
  taken over the 8-bit range), a \<^verbatim>\<open>Buffer\<close> is a list of bytes, and every
  \<^verbatim>\<open>throw\<close> is a value of the type \<open>error\<close>.
  The collaborators that are not code of this repository (the \<^verbatim>\<open>sharp\<close> codec,
  \<^verbatim>\<open>undici\<close>, the file system, the provider) are fields of the record \<open>world\<close>;
  every call to one of them is written to a log of events, in the order the code
  makes the calls.
\<close>

subsection \<open>Strings and the regular expressions of the reference tests\<close>

type_synonym byte = "8 word"
type_synonym bytes = "byte list"

definition toLowerAscii :: "char \<Rightarrow> char" where
  "toLowerAscii c =
     (let n = (of_char c :: nat) in if 65 \<le> n \<and> n \<le> 90 then char_of (n + 32) else c)"

definition toLowerCase :: "string \<Rightarrow> string" where
  "toLowerCase s = map toLowerAscii s"

definition startsWith :: "string \<Rightarrow> string \<Rightarrow> bool" where
  "startsWith s p = (take (length p) s = p)"

text \<open>A literal prefix matched under the flag \<^verbatim>\<open>i\<close>; the pattern \<open>p\<close> is lower case.\<close>

definition startsWithCI :: "string \<Rightarrow> string \<Rightarrow> bool" where
  "startsWithCI s p = (toLowerCase (take (length p) s) = p)"

definition isAsciiLetter :: "char \<Rightarrow> bool" where
  "isAsciiLetter c =
     (let n = (of_char c :: nat) in (65 \<le> n \<and> n \<le> 90) \<or> (97 \<le> n \<and> n \<le> 122))"

text \<open>\<^verbatim>\<open>/^https?:\/\//i\<close>\<close>

definition isURL :: "string \<Rightarrow> bool" where
  "isURL s = (startsWithCI s ''http://'' \<or> startsWithCI s ''https://'')"

text \<open>\<^verbatim>\<open>/^file:\/\//i\<close>\<close>

definition isFileURL :: "string \<Rightarrow> bool" where
  "isFileURL s = startsWithCI s ''file://''"

text \<open>
  \<^verbatim>\<open>/^data:image\/[^;]+;base64,/\<close>: the run \<^verbatim>\<open>[^;]+\<close> cannot cross a semicolon,
  so it is the longest run of other characters and must be followed by \<^verbatim>\<open>;base64,\<close>.
\<close>

definition isDataURI :: "string \<Rightarrow> bool" where
  "isDataURI s =
     (startsWith s ''data:image/'' \<and>
      (let rest = drop 11 s in
         takeWhile (\<lambda>c. c \<noteq> CHR '';'') rest \<noteq> [] \<and>
         startsWith (dropWhile (\<lambda>c. c \<noteq> CHR '';'') rest) '';base64,''))"

text \<open>\<^verbatim>\<open>s.startsWith("/") || /^[A-Za-z]:\\/.test(s)\<close>\<close>

definition isAbsPath :: "string \<Rightarrow> bool" where
  "isAbsPath s =
     (startsWith s ''/'' \<or>
      (case s of a # b # c # _ \<Rightarrow> isAsciiLetter a \<and> b = CHR '':'' \<and> c = CHR 0x5C
       | _ \<Rightarrow> False))"

text \<open>
  \<^verbatim>\<open>/^data:([^;]+);base64,(.+)$/.exec(img)\<close>: the two groups, or \<open>None\<close> for
  \<^verbatim>\<open>null\<close>. The dot matches no line terminator and \<^verbatim>\<open>$\<close> is the end of the input.
\<close>

definition isLineTerminator :: "char \<Rightarrow> bool" where
  "isLineTerminator c = (c = CHR 0x0A \<or> c = CHR 0x0D)"

definition execDataURI :: "string \<Rightarrow> (string \<times> string) option" where
  "execDataURI s =
     (if \<not> startsWith s ''data:'' then None
      else
        let rest = drop 5 s;
            mime = takeWhile (\<lambda>c. c \<noteq> CHR '';'') rest;
            after = dropWhile (\<lambda>c. c \<noteq> CHR '';'') rest;
            payload = drop 8 after
        in if mime \<noteq> [] \<and> startsWith after '';base64,'' \<and> payload \<noteq> [] \<and>
              \<not> list_ex isLineTerminator payload
           then Some (mime, payload) else None)"

subsection \<open>The format table\<close>

text \<open>\<^verbatim>\<open>map[format.toLowerCase()] || "image/png"\<close>\<close>

definition formatToMime :: "string \<Rightarrow> string" where
  "formatToMime format =
     (case map_of
        [(''jpeg'', ''image/jpeg''),
         (''jpg'', ''image/jpeg''),
         (''png'', ''image/png''),
         (''gif'', ''image/gif''),
         (''webp'', ''image/webp''),
         (''tiff'', ''image/tiff''),
         (''avif'', ''image/avif''),
         (''heif'', ''image/heif''),
         (''heic'', ''image/heic'')] (toLowerCase format) of
        Some m \<Rightarrow> m
      | None \<Rightarrow> ''image/png'')"

subsection \<open>\<^verbatim>\<open>Buffer.toString("base64")\<close>\<close>

definition b64_alphabet :: string where
  "b64_alphabet = ''ABCDEFGHIJKLMNOPQRSTUVWXYZabcdefghijklmnopqrstuvwxyz0123456789+/''"

definition b64_char :: "nat \<Rightarrow> char" where
  "b64_char n = b64_alphabet ! (n mod 64)"

fun toBase64 :: "bytes \<Rightarrow> string" where
  "toBase64 (a # b # c # rest) =
     (let n = unat a * 65536 + unat b * 256 + unat c
      in [b64_char (n div 262144), b64_char (n div 4096), b64_char (n div 64), b64_char n]
         @ toBase64 rest)"
| "toBase64 [a, b] =
     (let n = unat a * 65536 + unat b * 256
      in [b64_char (n div 262144), b64_char (n div 4096), b64_char (n div 64), CHR ''=''])"
| "toBase64 [a] =
     (let n = unat a * 65536
      in [b64_char (n div 262144), b64_char (n div 4096), CHR ''='', CHR ''=''])"
| "toBase64 [] = []"

subsection \<open>Configuration: the environment variables and the constants\<close>

record process_env =
  GEMINI_PROVIDER :: "string option"
  GEMINI_MODEL :: "string option"
  GEMINI_API_KEY :: "string option"
  VISION_MAX_LONG_EDGE :: "string option"
  GEMINI_LOCATION :: "string option"
  GOOGLE_CLOUD_PROJECT :: "string option"

text \<open>\<^verbatim>\<open>process.env.X || d\<close>: an unset or empty variable gives the default.\<close>

definition orDefault :: "string option \<Rightarrow> string \<Rightarrow> string" where
  "orDefault v d = (case v of None \<Rightarrow> d | Some s \<Rightarrow> if s = [] then d else s)"

definition isDigit :: "char \<Rightarrow> bool" where
  "isDigit c = (let n = (of_char c :: nat) in 48 \<le> n \<and> n \<le> 57)"

text \<open>The white space that \<^verbatim>\<open>trim\<close> and \<^verbatim>\<open>parseInt\<close> skip, within the 8-bit range.\<close>

definition isWhiteSpace :: "char \<Rightarrow> bool" where
  "isWhiteSpace c = ((of_char c :: nat) \<in> {9, 10, 11, 12, 13, 32, 160})"

definition digitsValue :: "string \<Rightarrow> nat" where
  "digitsValue ds = foldl (\<lambda>acc c. 10 * acc + (of_char c - 48)) 0 ds"

text \<open>
  \<^verbatim>\<open>parseInt(s, 10)\<close>: leading white space, an optional sign, then the longest run of
  decimal digits; \<open>None\<close> is \<^verbatim>\<open>NaN\<close>. (The value is kept exact; JavaScript
  rounds it to a double.)
\<close>

definition parseInt :: "string \<Rightarrow> int option" where
  "parseInt s =
     (let t = dropWhile isWhiteSpace s;
          neg = (case t of c # _ \<Rightarrow> c = CHR ''-'' | [] \<Rightarrow> False);
          u = (case t of c # r \<Rightarrow> if c = CHR ''-'' \<or> c = CHR ''+'' then r else t | [] \<Rightarrow> t);
          ds = takeWhile isDigit u
      in if ds = [] then None
         else Some (if neg then - int (digitsValue ds) else int (digitsValue ds)))"

definition PROVIDER :: "process_env \<Rightarrow> string" where
  "PROVIDER env = orDefault (GEMINI_PROVIDER env) ''ais''"

definition MODEL :: "process_env \<Rightarrow> string" where
  "MODEL env = orDefault (GEMINI_MODEL env) ''models/gemini-flash-lite-latest''"

definition API_KEY :: "process_env \<Rightarrow> string option" where
  "API_KEY env = GEMINI_API_KEY env"

text \<open>
  \<^verbatim>\<open>process.env.VISION_MAX_LONG_EDGE ? parseInt(process.env.VISION_MAX_LONG_EDGE, 10) : 2048\<close>
\<close>

definition MAX_LONG_EDGE :: "process_env \<Rightarrow> int option" where
  "MAX_LONG_EDGE env =
     (case VISION_MAX_LONG_EDGE env of
        None \<Rightarrow> Some 2048
      | Some s \<Rightarrow> if s = [] then Some 2048 else parseInt s)"

definition MAX_IMAGES :: nat where
  "MAX_IMAGES = 10"

definition MAX_IMAGE_SIZE_MB :: nat where
  "MAX_IMAGE_SIZE_MB = 18"

definition MAX_IMAGE_SIZE_BYTES :: nat where
  "MAX_IMAGE_SIZE_BYTES = MAX_IMAGE_SIZE_MB * 1024 * 1024"

subsection \<open>Parts, errors, the outside world\<close>

record inline_data =
  mimeType :: string
  data :: string

text \<open>
  \<^verbatim>\<open>interface GeminiPart { inlineData?: {...}; text?: string }\<close>; the field
  \<^verbatim>\<open>text\<close> is \<open>text_part\<close> here.
\<close>

record GeminiPart =
  inlineData :: "inline_data option"
  text_part :: "string option"

text \<open>
  One constructor per \<^verbatim>\<open>throw\<close> of the source, with the values its message
  quotes; \<open>Thrown\<close> is an exception of a collaborator that the code passes on, and
  \<open>TypeError\<close> is the one JavaScript raises on a property read of \<^verbatim>\<open>null\<close> or on a
  call of something that is no function.
\<close>

datatype error =
    InvalidDataURIFormat
  | DataURINotImage string
  | DataURITooLarge nat
  | FetchFailed nat
  | URLNotImage string
  | ImageTooLarge nat
  | UnsupportedImageFormat string
  | NotValidImageFile string
  | InvalidOrCorruptedImage
  | ImageTooLargeAfterProcessing nat
  | ApiKeyRequired
  | ProjectRequired
  | ParseFailed nat string
  | GeminiApiError nat
  | GeminiVertexApiError nat
  | UnknownTool string
  | MissingImages
  | MissingInstruction
  | AtLeastOneImage
  | TooManyImages nat
  | TypeError
  | Thrown string

text \<open>What \<^verbatim>\<open>sharp(buffer).metadata()\<close> resolves to; a field may be \<^verbatim>\<open>undefined\<close>.\<close>

record metadata =
  format :: "string option"
  width :: "nat option"
  height :: "nat option"

record resize_options =
  fit :: string
  withoutEnlargement :: bool

text \<open>
  The response of \<^verbatim>\<open>request(img, ...)\<close>, with the outcome of reading its body by
  \<^verbatim>\<open>body.arrayBuffer()\<close>; the header is \<open>None\<close> when the response has none.
\<close>

record get_response =
  statusCode :: nat
  content_type :: "string option"
  arrayBuffer :: "string + bytes"

text \<open>
  A parsed JSON value. A \<open>JNum\<close> carries the text JavaScript prints the number as; a
  \<open>JObj\<close> lists the properties of the object, each key once.
\<close>

datatype json =
    JNull
  | JBool bool
  | JNum string
  | JStr string
  | JArr "json list"
  | JObj "(string \<times> json) list"

record content =
  role :: string
  parts :: "GeminiPart list"

record post_request =
  post_url :: string
  authorization :: "string option"
  contents :: "content list"

text \<open>
  The response to the POST: \<open>body_json\<close> is \<open>None\<close> when \<^verbatim>\<open>body.json()\<close> rejects,
  and \<open>body_text\<close> is what \<^verbatim>\<open>body.text()\<close> gives after that.
\<close>

record post_response =
  post_statusCode :: nat
  body_json :: "json option"
  body_text :: "string + string"

text \<open>
  The collaborators. Each returns \<open>Inl\<close> of a message where the real one throws
  (a network failure, the abort after \<^verbatim>\<open>REQUEST_TIMEOUT_MS\<close>, a missing file, a codec error).
\<close>

record world =
  request_get :: "string \<Rightarrow> string + get_response"
  readFile :: "string \<Rightarrow> string + bytes"
  fileURLToPath :: "string \<Rightarrow> string + string"
  sharp_metadata :: "bytes \<Rightarrow> string + metadata"
  sharp_resize :: "bytes \<Rightarrow> int \<Rightarrow> int \<Rightarrow> resize_options \<Rightarrow> string + bytes"
  request_post :: "post_request \<Rightarrow> string + post_response"
  getVertexAccessToken :: "string + string"

datatype event =
    HttpGet string
  | ReadFile string
  | SharpMetadata bytes
  | SharpResize bytes int int resize_options
  | ResolveAccessToken
  | HttpPost post_request

subsection \<open>Effects: a log of the calls made, and a result or an error\<close>

type_synonym 'a io = "event list \<times> (error + 'a)"

definition io_return :: "'a \<Rightarrow> 'a io" where
  "io_return x = ([], Inr x)"

definition io_throw :: "error \<Rightarrow> 'a io" where
  "io_throw e = ([], Inl e)"

text \<open>A call of a collaborator: logged, and its exception passed on.\<close>

definition io_call :: "event \<Rightarrow> (string + 'a) \<Rightarrow> 'a io" where
  "io_call ev r = ([ev], case r of Inl msg \<Rightarrow> Inl (Thrown msg) | Inr x \<Rightarrow> Inr x)"

text \<open>A step that may throw and is not logged on its own.\<close>

definition io_pure :: "(string + 'a) \<Rightarrow> 'a io" where
  "io_pure r = ([], case r of Inl msg \<Rightarrow> Inl (Thrown msg) | Inr x \<Rightarrow> Inr x)"

definition io_bind :: "'a io \<Rightarrow> ('a \<Rightarrow> 'b io) \<Rightarrow> 'b io" where
  "io_bind m f =
     (case m of
        (t, Inl e) \<Rightarrow> (t, Inl e)
      | (t, Inr x) \<Rightarrow> (case f x of (t', r) \<Rightarrow> (t @ t', r)))"

subsection \<open>\<^verbatim>\<open>processImageBuffer\<close> (lines 157-199)\<close>

definition processImageBuffer :: "process_env \<Rightarrow> world \<Rightarrow> bytes \<Rightarrow> GeminiPart io" where
  "processImageBuffer env w buffer =
     io_bind
       ([SharpMetadata buffer],
        case sharp_metadata w buffer of
          Inl msg \<Rightarrow> Inl (NotValidImageFile msg)
        | Inr m \<Rightarrow> Inr m)
       (\<lambda>metadata.
          case format metadata of
            None \<Rightarrow> io_throw InvalidOrCorruptedImage
          | Some fmt \<Rightarrow>
          (case width metadata of
            None \<Rightarrow> io_throw InvalidOrCorruptedImage
          | Some wd \<Rightarrow>
          (case height metadata of
            None \<Rightarrow> io_throw InvalidOrCorruptedImage
          | Some ht \<Rightarrow>
              if fmt = [] \<or> wd = 0 \<or> ht = 0 then io_throw InvalidOrCorruptedImage
              else
                let mime = formatToMime fmt;
                    opts = \<lparr>fit = ''inside'', withoutEnlargement = True\<rparr>
                in io_bind
                     (case MAX_LONG_EDGE env of
                        None \<Rightarrow> io_return buffer
                      | Some maxEdge \<Rightarrow>
                          if 0 < maxEdge \<and> maxEdge < int (max wd ht)
                          then io_call (SharpResize buffer maxEdge maxEdge opts)
                                 (sharp_resize w buffer maxEdge maxEdge opts)
                          else io_return buffer)
                     (\<lambda>processedBuffer.
                        if MAX_IMAGE_SIZE_BYTES < length processedBuffer
                        then io_throw (ImageTooLargeAfterProcessing (length processedBuffer))
                        else io_return
                               \<lparr>inlineData =
                                  Some \<lparr>mimeType = mime, data = toBase64 processedBuffer\<rparr>,
                                text_part = None\<rparr>))))"

subsection \<open>\<^verbatim>\<open>toPart\<close> (lines 81-154)\<close>

text \<open>Lines 83-106: the data URI branch.\<close>

definition partFromDataURI :: "string \<Rightarrow> GeminiPart io" where
  "partFromDataURI img =
     (case execDataURI img of
        None \<Rightarrow> io_throw InvalidDataURIFormat
      | Some (m1, m2) \<Rightarrow>
          if \<not> startsWith m1 ''image/'' then io_throw (DataURINotImage m1)
          else if 4 * MAX_IMAGE_SIZE_BYTES < length m2 * 3
          then io_throw (DataURITooLarge (length m2))
          else io_return
                 \<lparr>inlineData = Some \<lparr>mimeType = m1, data = m2\<rparr>, text_part = None\<rparr>)"

text \<open>Lines 109-140: the HTTP(S) branch.\<close>

definition partFromURL :: "process_env \<Rightarrow> world \<Rightarrow> string \<Rightarrow> GeminiPart io" where
  "partFromURL env w img =
     io_bind (io_call (HttpGet img) (request_get w img))
       (\<lambda>resp.
          if statusCode resp \<noteq> 200 then io_throw (FetchFailed (statusCode resp))
          else
            let contentType = (case content_type resp of None \<Rightarrow> [] | Some c \<Rightarrow> c)
            in if \<not> startsWith contentType ''image/'' then io_throw (URLNotImage contentType)
               else io_bind (io_pure (arrayBuffer resp))
                      (\<lambda>buffer.
                         if MAX_IMAGE_SIZE_BYTES < length buffer
                         then io_throw (ImageTooLarge (length buffer))
                         else processImageBuffer env w buffer))"

text \<open>Lines 149-150: read the file and process it.\<close>

definition partFromFile :: "process_env \<Rightarrow> world \<Rightarrow> string \<Rightarrow> GeminiPart io" where
  "partFromFile env w filepath =
     io_bind (io_call (ReadFile filepath) (readFile w filepath)) (processImageBuffer env w)"

definition toPart :: "process_env \<Rightarrow> world \<Rightarrow> string \<Rightarrow> GeminiPart io" where
  "toPart env w img =
     (if isDataURI img then partFromDataURI img
      else if isURL img then partFromURL env w img
      else io_bind (if isFileURL img then io_pure (fileURLToPath w img) else io_return img)
             (\<lambda>filepath.
                if isAbsPath filepath then partFromFile env w filepath
                else io_throw (UnsupportedImageFormat img)))"

subsection \<open>The provider call (lines 70-78 and 201-327)\<close>

definition normalizeModelName :: "string \<Rightarrow> string \<Rightarrow> string" where
  "normalizeModelName model provider =
     (if provider = ''vertex''
      then (if startsWith model ''models/'' then drop 7 model else model)
      else (if startsWith model ''models/'' then model else ''models/'' @ model))"

text \<open>
  A property read \<^verbatim>\<open>v.k\<close> on a value that is neither \<^verbatim>\<open>null\<close> nor
  \<^verbatim>\<open>undefined\<close>, for the keys the code reads (\<^verbatim>\<open>candidates\<close>, \<^verbatim>\<open>content\<close>,
  \<^verbatim>\<open>parts\<close>, \<^verbatim>\<open>text\<close>): \<open>None\<close> is \<^verbatim>\<open>undefined\<close>.
\<close>

definition getProp :: "json \<Rightarrow> string \<Rightarrow> json option" where
  "getProp v k = (case v of JObj kvs \<Rightarrow> map_of kvs k | _ \<Rightarrow> None)"

text \<open>The read \<^verbatim>\<open>v[0]\<close>, on the same values.\<close>

definition getIndex0 :: "json \<Rightarrow> json option" where
  "getIndex0 v =
     (case v of
        JArr xs \<Rightarrow> (case xs of [] \<Rightarrow> None | x # _ \<Rightarrow> Some x)
      | JStr s \<Rightarrow> (case s of [] \<Rightarrow> None | c # _ \<Rightarrow> Some (JStr [c]))
      | JObj kvs \<Rightarrow> map_of kvs ''0''
      | _ \<Rightarrow> None)"


fun joinWith :: "string \<Rightarrow> string list \<Rightarrow> string" where
  "joinWith sep [] = []"
| "joinWith sep [x] = x"
| "joinWith sep (x # y # r) = x @ sep @ joinWith sep (y # r)"

text \<open>The string \<^verbatim>\<open>join\<close> makes of an element that is not \<^verbatim>\<open>null\<close>.\<close>

fun jsToString :: "json \<Rightarrow> string" where
  "jsToString JNull = ''null''"
| "jsToString (JBool b) = (if b then ''true'' else ''false'')"
| "jsToString (JNum s) = s"
| "jsToString (JStr s) = s"
| "jsToString (JArr xs) = joinWith '','' (map (\<lambda>x. if x = JNull then [] else jsToString x) xs)"
| "jsToString (JObj kvs) = ''[object Object]''"

text \<open>
  Lines 255-258 and 318-321, the same expression in both providers:
  \<^verbatim>\<open>json.candidates?.[0]?.content?.parts?.map((p) => p.text).join("") ?? ""\<close>.
  The first read is not optional, so \<^verbatim>\<open>null\<close> raises; \<^verbatim>\<open>map\<close> exists on arrays
  only; \<^verbatim>\<open>p.text\<close> raises on a \<^verbatim>\<open>null\<close> element.
\<close>

definition extractText :: "json \<Rightarrow> error + string" where
  "extractText json =
     (if json = JNull then Inl TypeError
      else case getProp json ''candidates'' of
        None \<Rightarrow> Inr []
      | Some cands \<Rightarrow> if cands = JNull then Inr [] else
      (case getIndex0 cands of
        None \<Rightarrow> Inr []
      | Some cand \<Rightarrow> if cand = JNull then Inr [] else
      (case getProp cand ''content'' of
        None \<Rightarrow> Inr []
      | Some cont \<Rightarrow> if cont = JNull then Inr [] else
      (case getProp cont ''parts'' of
        None \<Rightarrow> Inr []
      | Some ps \<Rightarrow> if ps = JNull then Inr [] else
      (case ps of
        JArr items \<Rightarrow>
          if list_ex (\<lambda>p. p = JNull) items then Inl TypeError
          else Inr (concat (map (\<lambda>p. case getProp p ''text'' of
                                        None \<Rightarrow> []
                                      | Some t \<Rightarrow> if t = JNull then [] else jsToString t)
                              items))
      | _ \<Rightarrow> Inl TypeError)))))"

text \<open>
  What both providers do with the response (lines 239-260 and 302-323); \<open>apiError\<close> is
  the error of the provider for a status other than 200. Its message reads
  \<^verbatim>\<open>json.error?.message\<close>, which raises on \<^verbatim>\<open>null\<close>; the text of the message is not
  modelled.
\<close>

definition readResponse :: "(nat \<Rightarrow> error) \<Rightarrow> post_response \<Rightarrow> string io" where
  "readResponse apiError resp =
     io_bind
       (case body_json resp of
          None \<Rightarrow>
            (case body_text resp of
               Inl msg \<Rightarrow> io_throw (Thrown msg)
             | Inr t \<Rightarrow> io_throw (ParseFailed (post_statusCode resp) (take 200 t)))
        | Some j \<Rightarrow> io_return j)
       (\<lambda>json.
          if post_statusCode resp \<noteq> 200
          then (if json = JNull then io_throw TypeError
                else io_throw (apiError (post_statusCode resp)))
          else ([], extractText json))"

definition callGeminiAIStudio :: "process_env \<Rightarrow> world \<Rightarrow> GeminiPart list \<Rightarrow> string io" where
  "callGeminiAIStudio env w ps =
     (case API_KEY env of
        None \<Rightarrow> io_throw ApiKeyRequired
      | Some key \<Rightarrow>
          if key = [] then io_throw ApiKeyRequired
          else
            let modelName = normalizeModelName (MODEL env) ''ais'';
                url = ''https://generativelanguage.googleapis.com/v1beta/'' @ modelName
                      @ '':generateContent?key='' @ key;
                req = \<lparr>post_url = url, authorization = None,
                       contents = [\<lparr>role = ''user'', parts = ps\<rparr>]\<rparr>
            in io_bind (io_call (HttpPost req) (request_post w req))
                 (readResponse GeminiApiError))"

definition callGeminiVertex :: "process_env \<Rightarrow> world \<Rightarrow> GeminiPart list \<Rightarrow> string io" where
  "callGeminiVertex env w ps =
     (let location = orDefault (GEMINI_LOCATION env) ''us-central1''
      in case GOOGLE_CLOUD_PROJECT env of
           None \<Rightarrow> io_throw ProjectRequired
         | Some project \<Rightarrow>
             if project = [] then io_throw ProjectRequired
             else
               io_bind (io_call ResolveAccessToken (getVertexAccessToken w))
                 (\<lambda>accessToken.
                    let modelName = normalizeModelName (MODEL env) ''vertex'';
                        url = ''https://'' @ location @ ''-aiplatform.googleapis.com/v1/projects/''
                              @ project @ ''/locations/'' @ location
                              @ ''/publishers/google/models/'' @ modelName @ '':generateContent'';
                        req = \<lparr>post_url = url, authorization = Some (''Bearer '' @ accessToken),
                               contents = [\<lparr>role = ''user'', parts = ps\<rparr>]\<rparr>
                    in io_bind (io_call (HttpPost req) (request_post w req))
                         (readResponse GeminiVertexApiError)))"

definition callGemini :: "process_env \<Rightarrow> world \<Rightarrow> GeminiPart list \<Rightarrow> string io" where
  "callGemini env w ps =
     (if PROVIDER env = ''vertex'' then callGeminiVertex env w ps
      else callGeminiAIStudio env w ps)"

subsection \<open>The handler of \<^verbatim>\<open>vision.analyze\<close> (lines 439-488)\<close>

text \<open>
  \<^verbatim>\<open>images: string | string[]\<close>, or absent; \<^verbatim>\<open>instruction: string\<close>, or absent.
\<close>

datatype images_arg = NoImages | ImageString string | ImageArray "string list"

record tool_request =
  tool_name :: string
  images :: images_arg
  instruction :: "string option"

definition trim :: "string \<Rightarrow> string" where
  "trim s = rev (dropWhile isWhiteSpace (rev (dropWhile isWhiteSpace s)))"

text \<open>
  Lines 469-472: \<^verbatim>\<open>for (const img of imageArray) parts.push(await toPart(img))\<close>, with
  the parts pushed so far as the first argument. The first image that fails ends the
  loop.
\<close>

fun convertAll :: "process_env \<Rightarrow> world \<Rightarrow> GeminiPart list \<Rightarrow> string list \<Rightarrow> GeminiPart list io" where
  "convertAll env w acc [] = io_return acc"
| "convertAll env w acc (img # rest) =
     io_bind (toPart env w img) (\<lambda>p. convertAll env w (acc @ [p]) rest)"

text \<open>The result is the \<^verbatim>\<open>text\<close> of the one content item the handler returns.\<close>

definition handler :: "process_env \<Rightarrow> world \<Rightarrow> tool_request \<Rightarrow> string io" where
  "handler env w req =
     (if tool_name req \<noteq> ''vision.analyze'' then io_throw (UnknownTool (tool_name req))
      else if images req = NoImages \<or> images req = ImageString [] then io_throw MissingImages
      else case instruction req of
        None \<Rightarrow> io_throw MissingInstruction
      | Some instr \<Rightarrow>
          if instr = [] \<or> length (trim instr) = 0 then io_throw MissingInstruction
          else
            let imageArray = (case images req of
                                ImageArray xs \<Rightarrow> xs
                              | ImageString s \<Rightarrow> [s]
                              | NoImages \<Rightarrow> [])
            in if length imageArray = 0 then io_throw AtLeastOneImage
               else if MAX_IMAGES < length imageArray
               then io_throw (TooManyImages (length imageArray))
               else io_bind (convertAll env w [] imageArray)
                      (\<lambda>ps. callGemini env w
                               (ps @ [\<lparr>inlineData = None, text_part = Some instr\<rparr>])))"

subsection \<open>Reading the log and the output\<close>

text \<open>The requests sent to the provider, in the order of the log.\<close>

fun posted :: "event list \<Rightarrow> post_request list" where
  "posted [] = []"
| "posted (HttpPost r # t) = r # posted t"
| "posted (_ # t) = posted t"

text \<open>
  The bytes a base64 text stands for: the inverse of \<open>toBase64\<close>, used to speak of the
  bytes of a part that was produced.
\<close>

definition b64_index :: "char \<Rightarrow> nat" where
  "b64_index c = (case map_of (zip b64_alphabet [0..<64]) c of Some n \<Rightarrow> n | None \<Rightarrow> 0)"

fun fromBase64 :: "string \<Rightarrow> bytes" where
  "fromBase64 (c0 # c1 # c2 # c3 # rest) =
     (let n = b64_index c0 * 262144 + b64_index c1 * 4096 + b64_index c2 * 64 + b64_index c3
      in if c2 = CHR ''='' then [of_nat (n div 65536)]
         else if c3 = CHR ''='' then [of_nat (n div 65536), of_nat (n div 256)]
         else of_nat (n div 65536) # of_nat (n div 256) # of_nat n # fromBase64 rest)"
| "fromBase64 _ = []"

text \<open>
  What the specification says of the downscale of a \<open>wd \<times> ht\<close> image whose longer
  edge exceeds the threshold \<open>t\<close>, the result being \<open>wd' \<times> ht'\<close>: the longer edge is
  \<open>t\<close>, no edge grows, and the ratio of the edges is kept up to the rounding of one
  edge to whole pixels.
\<close>

definition fitsInside :: "nat \<Rightarrow> nat \<Rightarrow> nat \<Rightarrow> nat \<Rightarrow> nat \<Rightarrow> bool" where
  "fitsInside t wd ht wd' ht' =
     (max wd' ht' = t \<and> wd' \<le> wd \<and> ht' \<le> ht \<and>
      wd' * ht \<le> ht' * wd + max wd ht \<and> ht' * wd \<le> wd' * ht + max wd ht)"

text \<open>
  A buffer is a decodable image when the codec reads a format and a positive width
  and height from it: the test of lines 160-168.
\<close>

definition decodes :: "world \<Rightarrow> bytes \<Rightarrow> string \<Rightarrow> nat \<Rightarrow> nat \<Rightarrow> bool" where
  "decodes w buffer fmt wd ht =
     (sharp_metadata w buffer = Inr \<lparr>format = Some fmt, width = Some wd, height = Some ht\<rparr> \<and>
      fmt \<noteq> [] \<and> 0 < wd \<and> 0 < ht)"

text \<open>The two errors of lines 163 and 167: the invalid image error of the specification.\<close>

fun isInvalidImageError :: "error \<Rightarrow> bool" where
  "isInvalidImageError (NotValidImageFile msg) = True"
| "isInvalidImageError InvalidOrCorruptedImage = True"
| "isInvalidImageError _ = False"

text \<open>
  An instruction the handler refuses (line 453): absent, empty, or white space only.
\<close>

definition blank :: "string option \<Rightarrow> bool" where
  "blank i = (case i of None \<Rightarrow> True | Some s \<Rightarrow> s = [] \<or> length (trim s) = 0)"


subsection \<open>The codec behind \<^verbatim>\<open>sharp\<close>\<close>

text \<open>
  Modelled from the spec: the image codec. \<^verbatim>\<open>sharp\<close> is a dependency of the
  repository and its code is not among the sources, which only call it; what the
  specification says of it (section 4.3) is that it decodes bytes to their true format,
  width and height, and that a resize is a downscale that puts the longer edge on the
  threshold, preserves the aspect ratio and never enlarges ("fit inside, never
  enlarge"). A codec of the model is a decoder together with an encoder of an image at
  a size that is positive and no larger, such that the decoder reads from the output
  of the encoder the format of the input and the size that was asked for. Nothing else
  is assumed of the two: not which buffers decode, nor the bytes the encoder writes.
\<close>

typedef codec =
  "{c :: (bytes \<Rightarrow> (string \<times> nat \<times> nat) option) \<times> (bytes \<Rightarrow> nat \<Rightarrow> nat \<Rightarrow> bytes).
      \<forall>b f wd ht wd' ht'.
        fst c b = Some (f, wd, ht) \<and> 0 < wd' \<and> wd' \<le> wd \<and> 0 < ht' \<and> ht' \<le> ht \<longrightarrow>
        fst c (snd c b wd' ht') = Some (f, wd', ht')}"
  by (rule exI [of _ "(\<lambda>_. None, \<lambda>b _ _. b)"]) simp

text \<open>
  Modelled from the spec: the decoder of a codec, the format, width and height of a
  buffer, or \<open>None\<close> for a buffer that is no image.
\<close>

definition decode :: "codec \<Rightarrow> bytes \<Rightarrow> (string \<times> nat \<times> nat) option" where
  "decode c = fst (Rep_codec c)"

text \<open>
  Modelled from the spec: the encoder of a codec, the image of a buffer at a given
  width and height.
\<close>

definition reencode :: "codec \<Rightarrow> bytes \<Rightarrow> nat \<Rightarrow> nat \<Rightarrow> bytes" where
  "reencode c = snd (Rep_codec c)"

text \<open>
  Modelled from the spec: the rounding of an edge to whole pixels. \<open>roundDiv a b\<close> is
  \<open>a / b\<close> rounded to the nearest whole number, a half rounded up.
\<close>

definition roundDiv :: "nat \<Rightarrow> nat \<Rightarrow> nat" where
  "roundDiv a b = (2 * a + b) div (2 * b)"

text \<open>
  Modelled from the spec: the size of a \<open>wd \<times> ht\<close> image resized into a box of
  \<open>bw \<times> bh\<close>, fit inside and never enlarged. An image that fits the box keeps its
  size; otherwise the edge that is too long in proportion is put on the edge of the
  box and the other edge follows by the ratio, rounded, and is at least one pixel.
\<close>

definition fitInside :: "nat \<Rightarrow> nat \<Rightarrow> nat \<Rightarrow> nat \<Rightarrow> nat \<times> nat" where
  "fitInside bw bh wd ht =
     (if wd \<le> bw \<and> ht \<le> bh then (wd, ht)
      else if ht * bw \<le> wd * bh then (bw, max 1 (roundDiv (ht * bw) wd))
      else (max 1 (roundDiv (wd * bh) ht), bh))"

text \<open>
  Modelled from the spec: \<^verbatim>\<open>sharp(buffer).metadata()\<close>, which reports what the decoder
  reads and throws on a buffer that does not decode.
\<close>

definition model_metadata :: "codec \<Rightarrow> bytes \<Rightarrow> string + metadata" where
  "model_metadata c b =
     (case decode c b of
        None \<Rightarrow> Inl ''Input buffer contains unsupported image format''
      | Some (f, wd, ht) \<Rightarrow> Inr \<lparr>format = Some f, width = Some wd, height = Some ht\<rparr>)"

text \<open>
  Modelled from the spec:
  \<^verbatim>\<open>sharp(buffer).resize(w, h, {fit: "inside", withoutEnlargement: true}).toBuffer()\<close>,
  with the only options the code passes (lines 177-182): the input encoded again at
  the size of \<open>fitInside\<close>.
\<close>

definition model_resize :: "codec \<Rightarrow> bytes \<Rightarrow> int \<Rightarrow> int \<Rightarrow> resize_options \<Rightarrow> string + bytes" where
  "model_resize c b bw bh opts =
     (if fit opts = ''inside'' \<and> withoutEnlargement opts
      then (case decode c b of
              None \<Rightarrow> Inl ''Input buffer contains unsupported image format''
            | Some (f, wd, ht) \<Rightarrow>
                (case fitInside (nat bw) (nat bh) wd ht of
                   (wd', ht') \<Rightarrow> Inr (reencode c b wd' ht')))
      else Inl ''options outside the model'')"

text \<open>
  Modelled from the spec: a world whose \<^verbatim>\<open>sharp\<close> is the codec \<open>c\<close> of the model; the
  other collaborators are those of \<open>w\<close>.
\<close>

definition with_sharp :: "codec \<Rightarrow> world \<Rightarrow> world" where
  "with_sharp c w = w\<lparr>sharp_metadata := model_metadata c, sharp_resize := model_resize c\<rparr>"

subsection \<open>Sample configurations and worlds\<close>

definition unset_env :: process_env where
  "unset_env =
     \<lparr>GEMINI_PROVIDER = None, GEMINI_MODEL = None, GEMINI_API_KEY = None,
      VISION_MAX_LONG_EDGE = None, GEMINI_LOCATION = None, GOOGLE_CLOUD_PROJECT = None\<rparr>"

text \<open>Nothing can be reached and nothing decodes; a file URL is cut to its path.\<close>

definition offline_world :: world where
  "offline_world =
     \<lparr>request_get = (\<lambda>_. Inl ''fetch failed''),
      readFile = (\<lambda>_. Inl ''ENOENT''),
      fileURLToPath = (\<lambda>s. Inr (drop 7 s)),
      sharp_metadata = (\<lambda>_. Inl ''Input buffer contains unsupported image format''),
      sharp_resize = (\<lambda>_ _ _ _. Inl ''Input buffer contains unsupported image format''),
      request_post = (\<lambda>_. Inl ''fetch failed''),
      getVertexAccessToken = Inl ''no credentials''\<rparr>"

text \<open>
  A toy codec: an image is two bytes, the edge of a square in big-endian order, and
  anything after them. Its resize into a box gives the square of the smaller edge of
  the box, never a larger one.
\<close>

definition toy_edge :: "bytes \<Rightarrow> nat option" where
  "toy_edge b =
     (case b of
        hi # lo # _ \<Rightarrow>
          (let n = unat hi * 256 + unat lo in if n = 0 then None else Some n)
      | _ \<Rightarrow> None)"

definition toy_metadata :: "bytes \<Rightarrow> string + metadata" where
  "toy_metadata b =
     (case toy_edge b of
        None \<Rightarrow> Inl ''Input buffer contains unsupported image format''
      | Some n \<Rightarrow> Inr \<lparr>format = Some ''png'', width = Some n, height = Some n\<rparr>)"

definition toy_resize :: "bytes \<Rightarrow> int \<Rightarrow> int \<Rightarrow> resize_options \<Rightarrow> string + bytes" where
  "toy_resize b wd ht opts =
     (case toy_edge b of
        None \<Rightarrow> Inl ''Input buffer contains unsupported image format''
      | Some n \<Rightarrow>
          (let t = min n (nat (min wd ht)) in Inr [of_nat (t div 256), of_nat t]))"

text \<open>
  A world with the toy codec, one file, one URL and a provider that answers every
  request with one candidate.
\<close>

definition toy_answer :: json where
  "toy_answer =
     JObj [(''candidates'',
            JArr [JObj [(''content'',
                         JObj [(''parts'',
                                JArr [JObj [(''text'', JStr ''a '')],
                                      JObj [(''text'', JStr ''cat'')]])])]])]"

definition toy_world :: world where
  "toy_world =
     \<lparr>request_get =
        (\<lambda>u. if u = ''https://x/y.png''
              then Inr \<lparr>statusCode = 200, content_type = Some ''image/png'',
                        arrayBuffer = Inr [0, 7, 1]\<rparr>
              else Inl ''fetch failed''),
      readFile = (\<lambda>p. if p = ''/tmp/a.jpg'' then Inr [16, 0, 2] else Inl ''ENOENT''),
      fileURLToPath = (\<lambda>s. Inr (drop 7 s)),
      sharp_metadata = toy_metadata,
      sharp_resize = toy_resize,
      request_post =
        (\<lambda>_. Inr \<lparr>post_statusCode = 200, body_json = Some toy_answer, body_text = Inr []\<rparr>),
      getVertexAccessToken = Inr ''token''\<rparr>"

text \<open>
  A codec of the model for the examples: a byte for the format, then the width and the
  height in two bytes each, then the pixels, which the examples leave out.
\<close>

definition raw_decode :: "bytes \<Rightarrow> (string \<times> nat \<times> nat) option" where
  "raw_decode b =
     (case b of
        t # w1 # w0 # h1 # h0 # _ \<Rightarrow>
          Some (if t = 0 then ''png'' else ''jpeg'',
                unat w1 * 256 + unat w0, unat h1 * 256 + unat h0)
      | _ \<Rightarrow> None)"

definition raw_reencode :: "bytes \<Rightarrow> nat \<Rightarrow> nat \<Rightarrow> bytes" where
  "raw_reencode b wd ht =
     [hd b, of_nat (wd div 256), of_nat wd, of_nat (ht div 256), of_nat ht]"

definition raw_codec :: codec where
  "raw_codec = Abs_codec (raw_decode, raw_reencode)"

text \<open>A buffer one byte over the ceiling of 18 MiB.\<close>

definition oversized :: bytes where
  "oversized = replicate (Suc MAX_IMAGE_SIZE_BYTES) 0"

text \<open>The toy world with a resize whose output is over the ceiling.\<close>

definition bloating_world :: world where
  "bloating_world = toy_world\<lparr>sharp_resize := (\<lambda>_ _ _ _. Inr oversized)\<rparr>"

text \<open>Configurations for each provider.\<close>

definition ais_env :: process_env where
  "ais_env = unset_env\<lparr>GEMINI_API_KEY := Some ''key''\<rparr>"



section \<open>Properties\<close>

subsection \<open>The effect combinators\<close>

lemma io_bind_return: "io_bind (io_return x) f = f x"
  by (simp add: io_bind_def io_return_def split: prod.splits)

lemma io_bind_throw: "io_bind (io_throw e) f = io_throw e"
  by (simp add: io_bind_def io_throw_def)

lemma io_bind_Inr: "io_bind (t, Inr x) f = (t @ fst (f x), snd (f x))"
  by (simp add: io_bind_def split: prod.splits)

lemma io_bind_Inl: "io_bind (t, Inl e) f = (t, Inl e)"
  by (simp add: io_bind_def)

lemmas io_simps = io_bind_return io_bind_throw io_bind_Inr io_bind_Inl

lemma posted_append: "posted (s @ t) = posted s @ posted t"
  by (induction s rule: posted.induct) simp_all

lemma posted_io_bind:
  "posted (fst (io_bind m f)) =
     posted (fst m) @ (case snd m of Inl e \<Rightarrow> [] | Inr x \<Rightarrow> posted (fst (f x)))"
  by (cases m) (auto simp add: io_bind_def posted_append split: sum.splits prod.splits)

subsection \<open>The reference tests on the vectors of the specification\<close>

lemmas reference_test_defs = isDataURI_def isURL_def isFileURL_def isAbsPath_def
  startsWith_def startsWithCI_def toLowerCase_def toLowerAscii_def isAsciiLetter_def

lemma remote_vector: "\<not> isDataURI ''https://x/y.png'' \<and> isURL ''https://x/y.png''"
  by (simp add: reference_test_defs)

lemma file_uri_vector:
  "\<not> isDataURI ''file:///tmp/a.jpg'' \<and> \<not> isURL ''file:///tmp/a.jpg'' \<and>
   isFileURL ''file:///tmp/a.jpg''"
  by (simp add: reference_test_defs)

lemma path_vector:
  "\<not> isDataURI ''/tmp/a.jpg'' \<and> \<not> isURL ''/tmp/a.jpg'' \<and> \<not> isFileURL ''/tmp/a.jpg'' \<and>
   isAbsPath ''/tmp/a.jpg''"
  by (simp add: reference_test_defs)

lemma data_uri_vector: "isDataURI ''data:image/png;base64,AAAA''"
  by (simp add: reference_test_defs)

lemma ftp_vector:
  "\<not> isDataURI ''ftp://x'' \<and> \<not> isURL ''ftp://x'' \<and> \<not> isFileURL ''ftp://x'' \<and>
   \<not> isAbsPath ''ftp://x''"
  by (simp add: reference_test_defs)

lemmas size_defs = MAX_IMAGE_SIZE_BYTES_def MAX_IMAGE_SIZE_MB_def

lemma data_uri_vector_part:
  "partFromDataURI ''data:image/png;base64,AAAA'' =
     ([], Inr \<lparr>inlineData = Some \<lparr>mimeType = ''image/png'', data = ''AAAA''\<rparr>,
               text_part = None\<rparr>)"
  by (simp add: partFromDataURI_def startsWith_def execDataURI_def isLineTerminator_def
      size_defs io_return_def)

lemma toPart_unsupported:
  assumes "\<not> isDataURI img" "\<not> isURL img" "\<not> isFileURL img" "\<not> isAbsPath img"
  shows "toPart env w img = ([], Inl (UnsupportedImageFormat img))"
  using assms by (simp add: toPart_def io_simps io_throw_def)

lemma toPart_empty: "toPart env w [] = ([], Inl (UnsupportedImageFormat []))"
  by (rule toPart_unsupported) (simp_all add: reference_test_defs)

subsection \<open>Base64 text and its bytes\<close>

lemma toBase64_hello: "toBase64 [104, 101, 108, 108, 111] = ''aGVsbG8=''"
  by (simp add: b64_char_def b64_alphabet_def)

lemma length_b64_alphabet: "length b64_alphabet = 64"
  by (simp add: b64_alphabet_def)

lemma distinct_b64_alphabet: "distinct b64_alphabet"
  by (simp add: b64_alphabet_def)

lemma pad_not_in_alphabet: "CHR ''='' \<notin> set b64_alphabet"
  by (simp add: b64_alphabet_def)

lemma b64_char_not_pad: "b64_char k \<noteq> CHR ''=''"
proof -
  have "b64_char k \<in> set b64_alphabet"
    unfolding b64_char_def by (rule nth_mem) (simp add: length_b64_alphabet)
  with pad_not_in_alphabet show ?thesis by auto
qed

lemma b64_index_char: "b64_index (b64_char k) = k mod 64"
proof -
  have "map_of (zip b64_alphabet [0..<64]) (b64_alphabet ! (k mod 64)) = Some ([0..<64] ! (k mod 64))"
    by (rule map_of_zip_nth) (simp_all add: length_b64_alphabet distinct_b64_alphabet)
  then show ?thesis by (simp add: b64_index_def b64_char_def)
qed

lemma b64_index_pad: "b64_index (CHR ''='') = 0"
proof -
  have "map fst (zip b64_alphabet [0..<64]) = b64_alphabet"
    by (rule map_fst_zip) (simp add: length_b64_alphabet)
  then have "fst ` set (zip b64_alphabet [0..<64]) = set b64_alphabet"
    by (metis set_map)
  then have "map_of (zip b64_alphabet [0..<64]) (CHR ''='') = None"
    using pad_not_in_alphabet by (simp add: map_of_eq_None_iff)
  then show ?thesis by (simp add: b64_index_def)
qed

lemma sextets:
  fixes n :: nat
  assumes "n < 16777216"
  shows "(n div 262144) mod 64 * 262144 + (n div 4096) mod 64 * 4096
         + (n div 64) mod 64 * 64 + n mod 64 = n"
proof -
  have a: "n = (n div 64) * 64 + n mod 64" by simp
  have "n div 64 div 64 = n div 4096" by (simp add: div_mult2_eq [symmetric])
  then have b: "n div 64 = (n div 4096) * 64 + (n div 64) mod 64"
    by (metis div_mult_mod_eq)
  have "n div 4096 div 64 = n div 262144" by (simp add: div_mult2_eq [symmetric])
  then have c: "n div 4096 = (n div 262144) * 64 + (n div 4096) mod 64"
    by (metis div_mult_mod_eq)
  have "n div 262144 < 64" using assms by simp
  then have d: "(n div 262144) mod 64 = n div 262144" by simp
  show ?thesis using a b c d by linarith
qed

lemma triple_bound:
  fixes a b c :: byte
  shows "unat a * 65536 + unat b * 256 + unat c < 16777216"
proof -
  have "unat a < 256" "unat b < 256" "unat c < 256"
    using unsigned_less [of a] unsigned_less [of b] unsigned_less [of c] by simp_all
  then show ?thesis by linarith
qed

lemma byte_hi:
  fixes a b c :: byte
  shows "(of_nat ((unat a * 65536 + unat b * 256 + unat c) div 65536) :: byte) = a"
proof -
  have "unat b < 256" "unat c < 256"
    using unsigned_less [of b] unsigned_less [of c] by simp_all
  then have "(unat a * 65536 + unat b * 256 + unat c) div 65536 = unat a" by linarith
  then show ?thesis by simp
qed

lemma byte_mid:
  fixes a b c :: byte
  shows "(of_nat ((unat a * 65536 + unat b * 256 + unat c) div 256) :: byte) = b"
proof -
  have "unat c < 256" using unsigned_less [of c] by simp
  then have "(unat a * 65536 + unat b * 256 + unat c) div 256 = unat a * 256 + unat b"
    by linarith
  moreover have "(of_nat (unat a * 256 + unat b) :: byte) = of_nat (unat b)"
    unfolding word_of_nat_eq_iff take_bit_eq_mod by simp
  ultimately show ?thesis by simp
qed

lemma byte_lo:
  fixes a b c :: byte
  shows "(of_nat (unat a * 65536 + unat b * 256 + unat c) :: byte) = c"
proof -
  have "unat a * 65536 + unat b * 256 + unat c = unat c + (unat a * 256 + unat b) * 256"
    by simp
  then have "(unat a * 65536 + unat b * 256 + unat c) mod 256 = unat c mod 256"
    by (simp only: mod_mult_self1)
  then have "(of_nat (unat a * 65536 + unat b * 256 + unat c) :: byte) = of_nat (unat c)"
    unfolding word_of_nat_eq_iff take_bit_eq_mod by simp
  then show ?thesis by simp
qed

lemma index_sum:
  "n < 16777216 \<Longrightarrow>
   b64_index (b64_char (n div 262144)) * 262144 + b64_index (b64_char (n div 4096)) * 4096
     + b64_index (b64_char (n div 64)) * 64 + b64_index (b64_char n) = n"
  unfolding b64_index_char by (rule sextets)

lemma fromBase64_toBase64: "fromBase64 (toBase64 bs) = bs"
proof (induction bs rule: toBase64.induct)
  case (1 a b c rest)
  define n where "n = unat a * 65536 + unat b * 256 + unat c"
  have n: "n < 16777216" unfolding n_def by (rule triple_bound)
  have "fromBase64 (toBase64 (a # b # c # rest)) =
        of_nat (n div 65536) # of_nat (n div 256) # of_nat n # fromBase64 (toBase64 rest)"
    by (simp add: Let_def n_def [symmetric] index_sum [OF n] b64_char_not_pad)
  also have "\<dots> = a # b # c # rest"
    by (simp only: n_def byte_hi byte_mid byte_lo 1)
  finally show ?case .
next
  case (2 a b)
  define n where "n = unat a * 65536 + unat b * 256 + unat (0 :: byte)"
  have n: "n < 16777216" unfolding n_def by (rule triple_bound)
  have "n = (unat a * 1024 + unat b * 4) * 64" unfolding n_def by simp
  then have "n mod 64 = 0" by (metis mod_mult_self2_is_0)
  then have z: "b64_index (b64_char n) = 0"
    unfolding b64_index_char .
  have "fromBase64 (toBase64 [a, b]) = [of_nat (n div 65536), of_nat (n div 256)]"
    using index_sum [OF n] z
    by (simp add: Let_def n_def b64_char_not_pad b64_index_pad)
  also have "\<dots> = [a, b]"
    by (simp only: n_def byte_hi byte_mid)
  finally show ?case .
next
  case (3 a)
  define n where "n = unat a * 65536 + unat (0 :: byte) * 256 + unat (0 :: byte)"
  have n: "n < 16777216" unfolding n_def by (rule triple_bound)
  have "n = (unat a * 1024) * 64" unfolding n_def by simp
  then have "n mod 64 = 0" "n div 64 = unat a * 1024" by simp_all
  moreover have "unat a * 1024 = (unat a * 16) * 64" by simp
  ultimately have "n mod 64 = 0" "n div 64 mod 64 = 0"
    by (simp_all only: mod_mult_self2_is_0)
  then have z: "b64_index (b64_char n) = 0" "b64_index (b64_char (n div 64)) = 0"
    unfolding b64_index_char .
  have "fromBase64 (toBase64 [a]) = [of_nat (n div 65536)]"
    using index_sum [OF n] z
    by (simp add: Let_def n_def b64_char_not_pad b64_index_pad)
  also have "\<dots> = [a]"
    by (simp only: n_def byte_hi)
  finally show ?case .
next
  case 4
  show ?case by simp
qed

lemma fromBase64_hello: "fromBase64 ''aGVsbG8='' = [104, 101, 108, 108, 111]"
  using fromBase64_toBase64 [of "[104, 101, 108, 108, 111]"] by (simp only: toBase64_hello)

subsection \<open>What \<open>processImageBuffer\<close> does with a buffer\<close>

lemma processImageBuffer_undecodable:
  "sharp_metadata w buffer = Inl msg \<Longrightarrow>
   processImageBuffer env w buffer = ([SharpMetadata buffer], Inl (NotValidImageFile msg))"
  by (simp add: processImageBuffer_def io_simps)

lemma processImageBuffer_no_resize:
  assumes "sharp_metadata w buffer = Inr m" "format m = Some fmt" "fmt \<noteq> []"
    "width m = Some wd" "0 < wd" "height m = Some ht" "0 < ht"
    "MAX_LONG_EDGE env = None \<or>
     (\<exists>e. MAX_LONG_EDGE env = Some e \<and> (e \<le> 0 \<or> int (max wd ht) \<le> e))"
  shows "processImageBuffer env w buffer =
    ([SharpMetadata buffer],
     if MAX_IMAGE_SIZE_BYTES < length buffer
     then Inl (ImageTooLargeAfterProcessing (length buffer))
     else Inr \<lparr>inlineData = Some \<lparr>mimeType = formatToMime fmt, data = toBase64 buffer\<rparr>,
               text_part = None\<rparr>)"
  using assms by (auto simp add: processImageBuffer_def io_simps io_return_def io_throw_def)

lemma processImageBuffer_resize:
  assumes "sharp_metadata w buffer = Inr m" "format m = Some fmt" "fmt \<noteq> []"
    "width m = Some wd" "0 < wd" "height m = Some ht" "0 < ht"
    "MAX_LONG_EDGE env = Some e" "0 < e" "e < int (max wd ht)"
  shows "processImageBuffer env w buffer =
    ([SharpMetadata buffer,
      SharpResize buffer e e \<lparr>fit = ''inside'', withoutEnlargement = True\<rparr>],
     case sharp_resize w buffer e e \<lparr>fit = ''inside'', withoutEnlargement = True\<rparr> of
       Inl msg \<Rightarrow> Inl (Thrown msg)
     | Inr out \<Rightarrow>
         if MAX_IMAGE_SIZE_BYTES < length out
         then Inl (ImageTooLargeAfterProcessing (length out))
         else Inr \<lparr>inlineData = Some \<lparr>mimeType = formatToMime fmt, data = toBase64 out\<rparr>,
                   text_part = None\<rparr>)"
  using assms
  by (auto simp add: processImageBuffer_def io_simps io_return_def io_throw_def io_call_def
      split: sum.splits)

lemma decodes_no_resize:
  assumes "decodes w buffer fmt wd ht"
    and "MAX_LONG_EDGE env = None \<or>
         (\<exists>e. MAX_LONG_EDGE env = Some e \<and> (e \<le> 0 \<or> int (max wd ht) \<le> e))"
  shows "processImageBuffer env w buffer =
    ([SharpMetadata buffer],
     if MAX_IMAGE_SIZE_BYTES < length buffer
     then Inl (ImageTooLargeAfterProcessing (length buffer))
     else Inr \<lparr>inlineData = Some \<lparr>mimeType = formatToMime fmt, data = toBase64 buffer\<rparr>,
               text_part = None\<rparr>)"
  using assms(1) unfolding decodes_def
  by (intro processImageBuffer_no_resize [OF _ _ _ _ _ _ _ assms(2)]) auto

lemma decodes_resize:
  assumes "decodes w buffer fmt wd ht"
    and "MAX_LONG_EDGE env = Some e" and "0 < e" and "e < int (max wd ht)"
  shows "processImageBuffer env w buffer =
    ([SharpMetadata buffer,
      SharpResize buffer e e \<lparr>fit = ''inside'', withoutEnlargement = True\<rparr>],
     case sharp_resize w buffer e e \<lparr>fit = ''inside'', withoutEnlargement = True\<rparr> of
       Inl msg \<Rightarrow> Inl (Thrown msg)
     | Inr out \<Rightarrow>
         if MAX_IMAGE_SIZE_BYTES < length out
         then Inl (ImageTooLargeAfterProcessing (length out))
         else Inr \<lparr>inlineData = Some \<lparr>mimeType = formatToMime fmt, data = toBase64 out\<rparr>,
                   text_part = None\<rparr>)"
  using assms(1) unfolding decodes_def
  by (intro processImageBuffer_resize [OF _ _ _ _ _ _ _ assms(2-4)]) auto

lemma decode_gate:
  assumes "\<not> (\<exists>fmt wd ht. decodes w buffer fmt wd ht)"
  shows "\<exists>e. processImageBuffer env w buffer = ([SharpMetadata buffer], Inl e) \<and>
             isInvalidImageError e"
proof (cases "sharp_metadata w buffer")
  case (Inl msg)
  then show ?thesis by (simp add: processImageBuffer_undecodable)
next
  case (Inr m)
  have m: "m = \<lparr>format = format m, width = width m, height = height m\<rparr>"
    by simp
  have "format m = None \<or> width m = None \<or> height m = None \<or>
        format m = Some [] \<or> width m = Some 0 \<or> height m = Some 0"
  proof (rule ccontr)
    assume "\<not> ?thesis"
    then obtain fmt wd ht where "format m = Some fmt" "width m = Some wd" "height m = Some ht"
      "fmt \<noteq> []" "0 < wd" "0 < ht"
      by auto
    with Inr m have "decodes w buffer fmt wd ht"
      by (simp add: decodes_def)
    with assms show False by blast
  qed
  then have "processImageBuffer env w buffer =
               ([SharpMetadata buffer], Inl InvalidOrCorruptedImage)"
    using Inr
    by (auto simp add: processImageBuffer_def io_simps io_throw_def split: option.splits)
  then show ?thesis by simp
qed

lemma success_within_ceiling:
  assumes "snd (processImageBuffer env w buffer) = Inr p"
  shows "\<exists>pb mime. inlineData p = Some \<lparr>mimeType = mime, data = toBase64 pb\<rparr> \<and>
                    length pb \<le> MAX_IMAGE_SIZE_BYTES"
proof (cases "\<exists>fmt wd ht. decodes w buffer fmt wd ht")
  case False
  with decode_gate [of w buffer env] assms show ?thesis by auto
next
  case True
  then obtain fmt wd ht where d: "decodes w buffer fmt wd ht" by blast
  show ?thesis
  proof (cases "MAX_LONG_EDGE env = None \<or>
         (\<exists>e. MAX_LONG_EDGE env = Some e \<and> (e \<le> 0 \<or> int (max wd ht) \<le> e))")
    case True
    from decodes_no_resize [OF d True] assms show ?thesis
      by (auto split: if_splits)
  next
    case False
    then obtain e where e: "MAX_LONG_EDGE env = Some e" "0 < e" "e < int (max wd ht)"
      by (cases "MAX_LONG_EDGE env") auto
    from decodes_resize [OF d e] assms show ?thesis
      by (auto split: sum.splits if_splits)
  qed
qed

lemma formatToMime_range:
  "formatToMime f \<in> {''image/jpeg'', ''image/png'', ''image/gif'', ''image/webp'',
                      ''image/tiff'', ''image/avif'', ''image/heif'', ''image/heic''}"
  unfolding formatToMime_def by (auto split: option.splits if_splits)

lemma png_mime: "formatToMime ''png'' = ''image/png''"
  by (simp add: formatToMime_def toLowerCase_def toLowerAscii_def)

lemma parseInt_zero: "parseInt ''0'' = Some 0"
  by (simp add: parseInt_def isWhiteSpace_def isDigit_def digitsValue_def)

subsection \<open>The sample worlds\<close>

lemma toBase64_toy: "toBase64 [0, 7, 1] = ''AAcB''"
  by (simp add: b64_char_def b64_alphabet_def)

lemma toBase64_halved: "toBase64 [8, 0] = ''CAA=''"
  by (simp add: b64_char_def b64_alphabet_def)

lemma toBase64_large: "toBase64 [16, 0, 2] = ''EAAC''"
  by (simp add: b64_char_def b64_alphabet_def)

lemma length_oversized: "length oversized = Suc MAX_IMAGE_SIZE_BYTES"
  by (simp add: oversized_def)

lemma toy_edge_large: "toy_edge [16, 0, 2] = Some 4096"
  by (simp add: toy_edge_def)

lemma toy_edge_padded: "toy_edge (0 # 7 # rest) = Some 7"
  by (simp add: toy_edge_def)

lemma unset_edge: "MAX_LONG_EDGE unset_env = Some 2048"
  by (simp add: MAX_LONG_EDGE_def unset_env_def)

lemma ais_edge: "MAX_LONG_EDGE ais_env = Some 2048"
  by (simp add: MAX_LONG_EDGE_def ais_env_def unset_env_def)

lemma toy_decodes_small: "decodes toy_world (0 # 7 # rest) ''png'' 7 7"
  by (simp add: decodes_def toy_world_def toy_metadata_def toy_edge_padded)

lemma toy_decodes_large: "decodes toy_world [16, 0, 2] ''png'' 4096 4096"
  by (simp add: decodes_def toy_world_def toy_metadata_def toy_edge_large)

lemma bloating_decodes_large: "decodes bloating_world [16, 0, 2] ''png'' 4096 4096"
  by (simp add: decodes_def bloating_world_def toy_world_def toy_metadata_def toy_edge_large)

lemma toy_resize_large:
  "sharp_resize toy_world [16, 0, 2] 2048 2048 \<lparr>fit = ''inside'', withoutEnlargement = True\<rparr>
     = Inr [8, 0]"
  by (simp add: toy_world_def toy_resize_def toy_edge_large)

lemma toy_large_part:
  assumes "MAX_LONG_EDGE env = Some 2048"
  shows "processImageBuffer env toy_world [16, 0, 2] =
     ([SharpMetadata [16, 0, 2],
       SharpResize [16, 0, 2] 2048 2048 \<lparr>fit = ''inside'', withoutEnlargement = True\<rparr>],
      Inr \<lparr>inlineData = Some \<lparr>mimeType = ''image/png'', data = ''CAA=''\<rparr>, text_part = None\<rparr>)"
  using decodes_resize [OF toy_decodes_large assms]
  by (simp add: toy_resize_large size_defs png_mime toBase64_halved del: toBase64.simps)

lemma toy_small_part_any:
  assumes "MAX_LONG_EDGE env = Some 2048"
  shows "processImageBuffer env toy_world [0, 7, 1] =
     ([SharpMetadata [0, 7, 1]],
      Inr \<lparr>inlineData = Some \<lparr>mimeType = ''image/png'', data = ''AAcB''\<rparr>, text_part = None\<rparr>)"
  using decodes_no_resize [OF toy_decodes_small [of "[1]"], of env] assms
  by (simp add: size_defs png_mime toBase64_toy del: toBase64.simps)

lemma toy_data_part:
  "toPart env w ''data:image/png;base64,AAcB'' =
     ([], Inr \<lparr>inlineData = Some \<lparr>mimeType = ''image/png'', data = ''AAcB''\<rparr>,
               text_part = None\<rparr>)"
proof -
  have "isDataURI ''data:image/png;base64,AAcB''"
    by (simp add: reference_test_defs)
  moreover have "partFromDataURI ''data:image/png;base64,AAcB'' =
     ([], Inr \<lparr>inlineData = Some \<lparr>mimeType = ''image/png'', data = ''AAcB''\<rparr>,
               text_part = None\<rparr>)"
    by (simp add: partFromDataURI_def startsWith_def execDataURI_def isLineTerminator_def
        size_defs io_return_def)
  ultimately show ?thesis by (simp add: toPart_def)
qed

lemma toy_path_part:
  assumes "MAX_LONG_EDGE env = Some 2048"
  shows "toPart env toy_world ''/tmp/a.jpg'' =
     ([ReadFile ''/tmp/a.jpg'', SharpMetadata [16, 0, 2],
       SharpResize [16, 0, 2] 2048 2048 \<lparr>fit = ''inside'', withoutEnlargement = True\<rparr>],
      Inr \<lparr>inlineData = Some \<lparr>mimeType = ''image/png'', data = ''CAA=''\<rparr>, text_part = None\<rparr>)"
proof -
  have "readFile toy_world ''/tmp/a.jpg'' = Inr [16, 0, 2]"
    by (simp add: toy_world_def)
  then have "partFromFile env toy_world ''/tmp/a.jpg'' =
     ([ReadFile ''/tmp/a.jpg'', SharpMetadata [16, 0, 2],
       SharpResize [16, 0, 2] 2048 2048 \<lparr>fit = ''inside'', withoutEnlargement = True\<rparr>],
      Inr \<lparr>inlineData = Some \<lparr>mimeType = ''image/png'', data = ''CAA=''\<rparr>, text_part = None\<rparr>)"
    by (simp add: partFromFile_def io_call_def io_simps toy_large_part [OF assms])
  with path_vector show ?thesis by (simp add: toPart_def io_simps)
qed

lemma toy_url_part:
  assumes "MAX_LONG_EDGE env = Some 2048"
  shows "toPart env toy_world ''https://x/y.png'' =
     ([HttpGet ''https://x/y.png'', SharpMetadata [0, 7, 1]],
      Inr \<lparr>inlineData = Some \<lparr>mimeType = ''image/png'', data = ''AAcB''\<rparr>, text_part = None\<rparr>)"
proof -
  have "request_get toy_world ''https://x/y.png'' =
          Inr \<lparr>statusCode = 200, content_type = Some ''image/png'', arrayBuffer = Inr [0, 7, 1]\<rparr>"
    by (simp add: toy_world_def)
  then have "partFromURL env toy_world ''https://x/y.png'' =
     ([HttpGet ''https://x/y.png'', SharpMetadata [0, 7, 1]],
      Inr \<lparr>inlineData = Some \<lparr>mimeType = ''image/png'', data = ''AAcB''\<rparr>, text_part = None\<rparr>)"
    by (simp add: partFromURL_def io_call_def io_pure_def io_simps startsWith_def size_defs
        toy_small_part_any [OF assms])
  with remote_vector show ?thesis by (simp add: toPart_def)
qed

lemma not_blank_describe: "\<not> blank (Some ''describe'')"
  by (simp add: blank_def trim_def isWhiteSpace_def)




subsection \<open>The data URI branch\<close>

text \<open>
  C1. The claim: a reference whose bytes are no decodable image fails with the error of
  an invalid image, whatever the kind of the reference, a data URI included. The data
  URI branch of \<open>toPart\<close> does not do this: the text \<^verbatim>\<open>hello\<close> in base64 behind
  \<^verbatim>\<open>data:image/png\<close> is returned as a part, with no call of the codec in the log,
  in a world whose codec rejects every buffer; the same bytes given to
  \<open>processImageBuffer\<close>, as the other branches do, are rejected.
\<close>

theorem data_uri_skips_decode_gate:
  "toPart env offline_world ''data:image/png;base64,aGVsbG8='' =
     ([], Inr \<lparr>inlineData = Some \<lparr>mimeType = ''image/png'', data = ''aGVsbG8=''\<rparr>,
               text_part = None\<rparr>) \<and>
   processImageBuffer env offline_world (fromBase64 ''aGVsbG8='') =
     ([SharpMetadata [104, 101, 108, 108, 111]],
      Inl (NotValidImageFile ''Input buffer contains unsupported image format''))"
proof -
  have "isDataURI ''data:image/png;base64,aGVsbG8=''"
    by (simp add: reference_test_defs)
  moreover have "partFromDataURI ''data:image/png;base64,aGVsbG8='' =
     ([], Inr \<lparr>inlineData = Some \<lparr>mimeType = ''image/png'', data = ''aGVsbG8=''\<rparr>,
               text_part = None\<rparr>)"
    by (simp add: partFromDataURI_def startsWith_def execDataURI_def isLineTerminator_def
        size_defs io_return_def)
  ultimately have "toPart env offline_world ''data:image/png;base64,aGVsbG8='' =
     ([], Inr \<lparr>inlineData = Some \<lparr>mimeType = ''image/png'', data = ''aGVsbG8=''\<rparr>,
               text_part = None\<rparr>)"
    by (simp add: toPart_def)
  moreover have "processImageBuffer env offline_world [104, 101, 108, 108, 111] =
     ([SharpMetadata [104, 101, 108, 108, 111]],
      Inl (NotValidImageFile ''Input buffer contains unsupported image format''))"
    by (rule processImageBuffer_undecodable) (simp add: offline_world_def)
  ultimately show ?thesis by (simp only: fromBase64_hello)
qed

text \<open>
  C2. The claim: the \<^verbatim>\<open>mimeType\<close> of every part produced is the format table applied
  to the decoded format, never the type the reference declares. The data URI branch of
  \<open>toPart\<close> does not do this: it returns the declared type, here one that the format
  table never gives, for bytes that \<open>processImageBuffer\<close> labels \<^verbatim>\<open>image/png\<close>.
\<close>

theorem data_uri_mime_is_declared:
  "toPart env toy_world ''data:image/x-icon;base64,AAcB'' =
     ([], Inr \<lparr>inlineData = Some \<lparr>mimeType = ''image/x-icon'', data = ''AAcB''\<rparr>,
               text_part = None\<rparr>) \<and>
   (\<forall>f. formatToMime f \<noteq> ''image/x-icon'') \<and>
   processImageBuffer unset_env toy_world (fromBase64 ''AAcB'') =
     ([SharpMetadata [0, 7, 1]],
      Inr \<lparr>inlineData = Some \<lparr>mimeType = ''image/png'', data = ''AAcB''\<rparr>, text_part = None\<rparr>)"
proof -
  have "isDataURI ''data:image/x-icon;base64,AAcB''"
    by (simp add: reference_test_defs)
  moreover have "partFromDataURI ''data:image/x-icon;base64,AAcB'' =
     ([], Inr \<lparr>inlineData = Some \<lparr>mimeType = ''image/x-icon'', data = ''AAcB''\<rparr>,
               text_part = None\<rparr>)"
    by (simp add: partFromDataURI_def startsWith_def execDataURI_def isLineTerminator_def
        size_defs io_return_def)
  ultimately have a: "toPart env toy_world ''data:image/x-icon;base64,AAcB'' =
     ([], Inr \<lparr>inlineData = Some \<lparr>mimeType = ''image/x-icon'', data = ''AAcB''\<rparr>,
               text_part = None\<rparr>)"
    by (simp add: toPart_def)
  have b: "formatToMime f \<noteq> ''image/x-icon''" for f
    using formatToMime_range [of f] by auto
  have "fromBase64 ''AAcB'' = [0, 7, 1]"
    using fromBase64_toBase64 [of "[0, 7, 1]"] by (simp only: toBase64_toy)
  then have c: "processImageBuffer unset_env toy_world (fromBase64 ''AAcB'') =
     ([SharpMetadata [0, 7, 1]],
      Inr \<lparr>inlineData = Some \<lparr>mimeType = ''image/png'', data = ''AAcB''\<rparr>, text_part = None\<rparr>)"
    by (simp only: toy_small_part_any [OF unset_edge])
  from a b c show ?thesis by blast
qed

subsection \<open>Which branch a reference takes\<close>

text \<open>
  C7. The vectors of the specification: \<^verbatim>\<open>https://x/y.png\<close> is handled as a remote
  URL (an HTTP GET of it comes first), \<^verbatim>\<open>file:///tmp/a.jpg\<close> as a file URL (its path
  is read), \<^verbatim>\<open>/tmp/a.jpg\<close> as an absolute path (it is read),
  \<^verbatim>\<open>data:image/png;base64,AAAA\<close> as a data URI (a part, and nothing in the log), and
  \<^verbatim>\<open>ftp://x\<close> fails as unsupported with nothing in the log. The branch is chosen by
  the four tests on the text of the reference alone: a reference that passes none of
  them fails as unsupported before any call.
\<close>

theorem reference_classification:
  "isURL ''https://x/y.png'' \<and> isFileURL ''file:///tmp/a.jpg'' \<and> isAbsPath ''/tmp/a.jpg'' \<and>
   isDataURI ''data:image/png;base64,AAAA'' \<and>
   \<not> isDataURI ''ftp://x'' \<and> \<not> isURL ''ftp://x'' \<and> \<not> isFileURL ''ftp://x'' \<and>
   \<not> isAbsPath ''ftp://x'' \<and>
   toPart env w ''https://x/y.png'' = partFromURL env w ''https://x/y.png'' \<and>
   hd (fst (partFromURL env w ''https://x/y.png'')) = HttpGet ''https://x/y.png'' \<and>
   (fileURLToPath w ''file:///tmp/a.jpg'' = Inr ''/tmp/a.jpg'' \<longrightarrow>
      toPart env w ''file:///tmp/a.jpg'' = partFromFile env w ''/tmp/a.jpg'') \<and>
   toPart env w ''/tmp/a.jpg'' = partFromFile env w ''/tmp/a.jpg'' \<and>
   hd (fst (partFromFile env w ''/tmp/a.jpg'')) = ReadFile ''/tmp/a.jpg'' \<and>
   toPart env w ''data:image/png;base64,AAAA'' =
     ([], Inr \<lparr>inlineData = Some \<lparr>mimeType = ''image/png'', data = ''AAAA''\<rparr>,
               text_part = None\<rparr>) \<and>
   toPart env w ''ftp://x'' = ([], Inl (UnsupportedImageFormat ''ftp://x'')) \<and>
   (\<not> isDataURI img \<and> \<not> isURL img \<and> \<not> isFileURL img \<and> \<not> isAbsPath img \<longrightarrow>
      toPart env w img = ([], Inl (UnsupportedImageFormat img)))"
proof -
  have 1: "toPart env w ''https://x/y.png'' = partFromURL env w ''https://x/y.png''"
    using remote_vector by (simp add: toPart_def)
  have 2: "toPart env w ''file:///tmp/a.jpg'' = partFromFile env w ''/tmp/a.jpg''"
    if "fileURLToPath w ''file:///tmp/a.jpg'' = Inr ''/tmp/a.jpg''"
    using file_uri_vector path_vector that
    by (simp add: toPart_def io_pure_def io_simps)
  have 3: "toPart env w ''/tmp/a.jpg'' = partFromFile env w ''/tmp/a.jpg''"
    using path_vector by (simp add: toPart_def io_simps)
  have 4: "toPart env w ''data:image/png;base64,AAAA'' =
     ([], Inr \<lparr>inlineData = Some \<lparr>mimeType = ''image/png'', data = ''AAAA''\<rparr>,
               text_part = None\<rparr>)"
    using data_uri_vector data_uri_vector_part by (simp add: toPart_def)
  have 5: "toPart env w ''ftp://x'' = ([], Inl (UnsupportedImageFormat ''ftp://x''))"
    using ftp_vector by (intro toPart_unsupported) simp_all
  have 6: "hd (fst (partFromURL env w u)) = HttpGet u" for u
    by (cases "request_get w u") (simp_all add: partFromURL_def io_call_def io_simps)
  have 7: "hd (fst (partFromFile env w p)) = ReadFile p" for p
    by (cases "readFile w p") (simp_all add: partFromFile_def io_call_def io_simps)
  have 8: "toPart env w img = ([], Inl (UnsupportedImageFormat img))"
    if "\<not> isDataURI img \<and> \<not> isURL img \<and> \<not> isFileURL img \<and> \<not> isAbsPath img"
    using that by (intro toPart_unsupported) simp_all
  from 1 2 3 4 5 6 7 8 remote_vector file_uri_vector path_vector data_uri_vector ftp_vector
  show ?thesis by blast
qed

theorem reference_classification_witness:
  "fileURLToPath toy_world ''file:///tmp/a.jpg'' = Inr ''/tmp/a.jpg'' \<and>
   toPart unset_env toy_world ''file:///tmp/a.jpg'' =
     partFromFile unset_env toy_world ''/tmp/a.jpg'' \<and>
   \<not> isDataURI ''images/a.jpg'' \<and> \<not> isURL ''images/a.jpg'' \<and>
   \<not> isFileURL ''images/a.jpg'' \<and> \<not> isAbsPath ''images/a.jpg'' \<and>
   toPart unset_env toy_world ''images/a.jpg'' =
     ([], Inl (UnsupportedImageFormat ''images/a.jpg''))"
proof -
  have a: "fileURLToPath toy_world ''file:///tmp/a.jpg'' = Inr ''/tmp/a.jpg''"
    by (simp add: toy_world_def)
  have b: "\<not> isDataURI ''images/a.jpg'' \<and> \<not> isURL ''images/a.jpg'' \<and>
           \<not> isFileURL ''images/a.jpg'' \<and> \<not> isAbsPath ''images/a.jpg''"
    by (simp add: reference_test_defs)
  from a b reference_classification [of unset_env toy_world "''images/a.jpg''"]
  show ?thesis by blast
qed

subsection \<open>Images that need no resize\<close>

text \<open>
  C5. A decodable image whose longer edge is at most the threshold and whose length is
  within the ceiling: the part holds the base64 text of the input bytes themselves (so
  the bytes of the part are the input, of the same length), the resize of the codec is
  never called, and processing the bytes of the part again gives the same part. The
  result does not depend on anything of the world but the metadata read from the buffer.
\<close>

theorem compliant_image_unchanged:
  assumes "decodes w buffer fmt wd ht"
    and "MAX_LONG_EDGE env = Some e" and "int (max wd ht) \<le> e"
    and "length buffer \<le> MAX_IMAGE_SIZE_BYTES"
  shows "processImageBuffer env w buffer =
           ([SharpMetadata buffer],
            Inr \<lparr>inlineData = Some \<lparr>mimeType = formatToMime fmt, data = toBase64 buffer\<rparr>,
                  text_part = None\<rparr>) \<and>
         fromBase64 (toBase64 buffer) = buffer \<and>
         length (fromBase64 (toBase64 buffer)) = length buffer \<and>
         processImageBuffer env w (fromBase64 (toBase64 buffer)) =
           ([SharpMetadata buffer],
            Inr \<lparr>inlineData = Some \<lparr>mimeType = formatToMime fmt, data = toBase64 buffer\<rparr>,
                  text_part = None\<rparr>) \<and>
         (\<forall>w'. sharp_metadata w' buffer = sharp_metadata w buffer \<longrightarrow>
               processImageBuffer env w' buffer = processImageBuffer env w buffer)"
proof -
  have edge: "MAX_LONG_EDGE env = None \<or>
     (\<exists>e. MAX_LONG_EDGE env = Some e \<and> (e \<le> 0 \<or> int (max wd ht) \<le> e))"
    using assms(2,3) by blast
  have run: "processImageBuffer env v buffer =
           ([SharpMetadata buffer],
            Inr \<lparr>inlineData = Some \<lparr>mimeType = formatToMime fmt, data = toBase64 buffer\<rparr>,
                  text_part = None\<rparr>)"
    if "decodes v buffer fmt wd ht" for v
    using decodes_no_resize [OF that edge] assms(4) by simp
  have again: "processImageBuffer env w' buffer = processImageBuffer env w buffer"
    if "sharp_metadata w' buffer = sharp_metadata w buffer" for w'
  proof -
    from that assms(1) have "decodes w' buffer fmt wd ht"
      by (simp add: decodes_def)
    then show ?thesis using run [of w'] run [OF assms(1)] by simp
  qed
  have decoded: "fromBase64 (toBase64 buffer) = buffer"
    by (rule fromBase64_toBase64)
  show ?thesis
    unfolding decoded using run [OF assms(1)] again by blast
qed

theorem compliant_image_unchanged_witness:
  "decodes toy_world [0, 7, 1] ''png'' 7 7 \<and> MAX_LONG_EDGE unset_env = Some 2048 \<and>
   processImageBuffer unset_env toy_world [0, 7, 1] =
     ([SharpMetadata [0, 7, 1]],
      Inr \<lparr>inlineData = Some \<lparr>mimeType = ''image/png'', data = ''AAcB''\<rparr>, text_part = None\<rparr>) \<and>
   fromBase64 ''AAcB'' = [0, 7, 1] \<and>
   processImageBuffer unset_env toy_world (fromBase64 ''AAcB'') =
     ([SharpMetadata [0, 7, 1]],
      Inr \<lparr>inlineData = Some \<lparr>mimeType = ''image/png'', data = ''AAcB''\<rparr>, text_part = None\<rparr>)"
proof -
  have "processImageBuffer unset_env toy_world [0, 7, 1] =
           ([SharpMetadata [0, 7, 1]],
            Inr \<lparr>inlineData = Some \<lparr>mimeType = formatToMime ''png'',
                                     data = toBase64 [0, 7, 1]\<rparr>,
                  text_part = None\<rparr>) \<and>
         fromBase64 (toBase64 [0, 7, 1]) = [0, 7, 1] \<and>
         length (fromBase64 (toBase64 [0 :: byte, 7, 1])) = length [0 :: byte, 7, 1] \<and>
         processImageBuffer unset_env toy_world (fromBase64 (toBase64 [0, 7, 1])) =
           ([SharpMetadata [0, 7, 1]],
            Inr \<lparr>inlineData = Some \<lparr>mimeType = formatToMime ''png'',
                                     data = toBase64 [0, 7, 1]\<rparr>,
                  text_part = None\<rparr>) \<and>
         (\<forall>w'. sharp_metadata w' [0, 7, 1] = sharp_metadata toy_world [0, 7, 1] \<longrightarrow>
               processImageBuffer unset_env w' [0, 7, 1] =
               processImageBuffer unset_env toy_world [0, 7, 1])"
    by (rule compliant_image_unchanged [OF toy_decodes_small unset_edge])
       (simp_all add: size_defs)
  then show ?thesis
    unfolding toBase64_toy png_mime using toy_decodes_small [of "[1]"] unset_edge by blast
qed

subsection \<open>The final size check\<close>

text \<open>
  C6. After the resize step the length of the bytes, resized or not, is compared with
  the ceiling: a resize that succeeds with an output over the ceiling ends in the error
  \<open>ImageTooLargeAfterProcessing\<close>, as does an image that needs no resize and is over
  the ceiling; and the bytes of every part that is produced are within the ceiling.
\<close>

theorem final_size_check:
  assumes "decodes w buffer fmt wd ht"
  shows
    "(\<forall>e out. MAX_LONG_EDGE env = Some e \<and> 0 < e \<and> e < int (max wd ht) \<and>
        sharp_resize w buffer e e \<lparr>fit = ''inside'', withoutEnlargement = True\<rparr> = Inr out \<and>
        MAX_IMAGE_SIZE_BYTES < length out \<longrightarrow>
        processImageBuffer env w buffer =
          ([SharpMetadata buffer,
            SharpResize buffer e e \<lparr>fit = ''inside'', withoutEnlargement = True\<rparr>],
           Inl (ImageTooLargeAfterProcessing (length out)))) \<and>
     ((MAX_LONG_EDGE env = None \<or>
       (\<exists>e. MAX_LONG_EDGE env = Some e \<and> (e \<le> 0 \<or> int (max wd ht) \<le> e))) \<and>
      MAX_IMAGE_SIZE_BYTES < length buffer \<longrightarrow>
        processImageBuffer env w buffer =
          ([SharpMetadata buffer], Inl (ImageTooLargeAfterProcessing (length buffer)))) \<and>
     (\<forall>p. snd (processImageBuffer env w buffer) = Inr p \<longrightarrow>
        (\<exists>pb mime. inlineData p = Some \<lparr>mimeType = mime, data = toBase64 pb\<rparr> \<and>
                    length pb \<le> MAX_IMAGE_SIZE_BYTES))"
proof (intro conjI allI impI)
  fix e out
  assume h: "MAX_LONG_EDGE env = Some e \<and> 0 < e \<and> e < int (max wd ht) \<and>
        sharp_resize w buffer e e \<lparr>fit = ''inside'', withoutEnlargement = True\<rparr> = Inr out \<and>
        MAX_IMAGE_SIZE_BYTES < length out"
  then have "MAX_LONG_EDGE env = Some e" "0 < e" "e < int (max wd ht)" by simp_all
  from decodes_resize [OF assms this] h
  show "processImageBuffer env w buffer =
          ([SharpMetadata buffer,
            SharpResize buffer e e \<lparr>fit = ''inside'', withoutEnlargement = True\<rparr>],
           Inl (ImageTooLargeAfterProcessing (length out)))"
    by simp
next
  assume h: "(MAX_LONG_EDGE env = None \<or>
       (\<exists>e. MAX_LONG_EDGE env = Some e \<and> (e \<le> 0 \<or> int (max wd ht) \<le> e))) \<and>
      MAX_IMAGE_SIZE_BYTES < length buffer"
  then have "MAX_LONG_EDGE env = None \<or>
       (\<exists>e. MAX_LONG_EDGE env = Some e \<and> (e \<le> 0 \<or> int (max wd ht) \<le> e))" by simp
  from decodes_no_resize [OF assms this] h
  show "processImageBuffer env w buffer =
          ([SharpMetadata buffer], Inl (ImageTooLargeAfterProcessing (length buffer)))"
    by simp
next
  fix p
  assume "snd (processImageBuffer env w buffer) = Inr p"
  then show "\<exists>pb mime. inlineData p = Some \<lparr>mimeType = mime, data = toBase64 pb\<rparr> \<and>
                    length pb \<le> MAX_IMAGE_SIZE_BYTES"
    by (rule success_within_ceiling)
qed

theorem final_size_check_witness:
  "processImageBuffer unset_env bloating_world [16, 0, 2] =
     ([SharpMetadata [16, 0, 2],
       SharpResize [16, 0, 2] 2048 2048 \<lparr>fit = ''inside'', withoutEnlargement = True\<rparr>],
      Inl (ImageTooLargeAfterProcessing (Suc MAX_IMAGE_SIZE_BYTES))) \<and>
   processImageBuffer unset_env toy_world (0 # 7 # oversized) =
     ([SharpMetadata (0 # 7 # oversized)],
      Inl (ImageTooLargeAfterProcessing (Suc (Suc (Suc MAX_IMAGE_SIZE_BYTES)))))"
proof -
  have r: "sharp_resize bloating_world [16, 0, 2] 2048 2048
             \<lparr>fit = ''inside'', withoutEnlargement = True\<rparr> = Inr oversized"
    by (simp add: bloating_world_def)
  have a: "processImageBuffer unset_env bloating_world [16, 0, 2] =
     ([SharpMetadata [16, 0, 2],
       SharpResize [16, 0, 2] 2048 2048 \<lparr>fit = ''inside'', withoutEnlargement = True\<rparr>],
      Inl (ImageTooLargeAfterProcessing (length oversized)))"
    using final_size_check [OF bloating_decodes_large, where env = unset_env] unset_edge r
    by (simp add: length_oversized)
  have b: "processImageBuffer unset_env toy_world (0 # 7 # oversized) =
     ([SharpMetadata (0 # 7 # oversized)],
      Inl (ImageTooLargeAfterProcessing (length (0 # 7 # oversized))))"
    using final_size_check [OF toy_decodes_small [of oversized], where env = unset_env]
      unset_edge
    by (simp add: length_oversized)
  from a b show ?thesis by (simp add: length_oversized)
qed

subsection \<open>The codec of the model\<close>

lemma codec_coherent:
  assumes "decode c b = Some (f, wd, ht)" "0 < wd'" "wd' \<le> wd" "0 < ht'" "ht' \<le> ht"
  shows "decode c (reencode c b wd' ht') = Some (f, wd', ht')"
  using Rep_codec [of c] assms unfolding decode_def reencode_def by blast

lemma two_bytes:
  assumes "n < 65536"
  shows "unat (of_nat (n div 256) :: byte) * 256 + unat (of_nat n :: byte) = n"
proof -
  have "n div 256 < 256" using assms by simp
  then have "unat (of_nat (n div 256) :: byte) = n div 256"
    by (simp add: unat_of_nat)
  moreover have "unat (of_nat n :: byte) = n mod 256"
    by (simp add: unat_of_nat)
  ultimately show ?thesis by simp
qed

lemma raw_decode_bound:
  assumes "raw_decode b = Some (f, wd, ht)"
  shows "wd < 65536 \<and> ht < 65536 \<and> f = (if hd b = 0 then ''png'' else ''jpeg'')"
proof -
  from assms obtain t w1 w0 h1 h0 rest where b: "b = t # w1 # w0 # h1 # h0 # rest"
    by (auto simp add: raw_decode_def split: list.splits)
  have "unat w1 < 256" "unat w0 < 256" "unat h1 < 256" "unat h0 < 256"
    using unsigned_less [of w1] unsigned_less [of w0] unsigned_less [of h1]
      unsigned_less [of h0] by simp_all
  then have "unat w1 * 256 + unat w0 < 65536" "unat h1 * 256 + unat h0 < 65536"
    by linarith+
  with assms b show ?thesis by (auto simp add: raw_decode_def)
qed

lemma raw_coherent:
  assumes "raw_decode b = Some (f, wd, ht)" "wd' \<le> wd" "ht' \<le> ht"
  shows "raw_decode (raw_reencode b wd' ht') = Some (f, wd', ht')"
proof -
  from raw_decode_bound [OF assms(1)] assms(2,3)
  have "wd' < 65536" "ht' < 65536" "f = (if hd b = 0 then ''png'' else ''jpeg'')"
    by auto
  then show ?thesis
    by (simp add: raw_decode_def raw_reencode_def two_bytes)
qed

lemma Rep_raw_codec: "Rep_codec raw_codec = (raw_decode, raw_reencode)"
  unfolding raw_codec_def
  by (rule Abs_codec_inverse) (auto simp add: raw_coherent)

lemma decode_raw: "decode raw_codec = raw_decode"
  by (simp add: decode_def Rep_raw_codec)

lemma reencode_raw: "reencode raw_codec = raw_reencode"
  by (simp add: reencode_def Rep_raw_codec)

subsection \<open>The size of the resized image\<close>

lemma roundDiv_bounds:
  assumes "0 < b"
  shows "2 * (roundDiv a b * b) \<le> 2 * a + b" and "2 * a + b < 2 * (roundDiv a b * b) + 2 * b"
proof -
  let ?r = "roundDiv a b"
  have "?r * (2 * b) \<le> 2 * a + b"
    unfolding roundDiv_def by simp
  then show "2 * (?r * b) \<le> 2 * a + b" by (simp add: mult.commute mult.left_commute)
  have "2 * a + b < ?r * (2 * b) + 2 * b"
    unfolding roundDiv_def using assms dividend_less_div_times [of "2 * b" "2 * a + b"]
    by (simp add: add.commute)
  then show "2 * a + b < 2 * (?r * b) + 2 * b" by (simp add: mult.commute mult.left_commute)
qed

lemma fits_wide:
  assumes "0 < t" "0 < ht" "ht \<le> wd" "t < wd"
  shows "fitsInside t wd ht t (max 1 (roundDiv (ht * t) wd))"
proof -
  define r where "r = roundDiv (ht * t) wd"
  define x where "x = ht * t"
  define y where "y = r * wd"
  have wd: "0 < wd" using assms by simp
  have lo: "2 * y \<le> 2 * x + wd"
    unfolding x_def y_def r_def by (rule roundDiv_bounds(1) [OF wd])
  have hi: "2 * x + wd < 2 * y + 2 * wd"
    unfolding x_def y_def r_def by (rule roundDiv_bounds(2) [OF wd])
  have a: "x \<le> t * wd" unfolding x_def using assms(3) by (simp add: mult.commute)
  have "2 * y < 2 * (t * wd) + 2 * wd" using lo a wd by linarith
  then have "r * wd < (t + 1) * wd" unfolding y_def by simp
  then have "r < t + 1" by (simp only: mult_less_cancel2)
  then have r_t: "r \<le> t" by simp
  have "ht * (t + 1) \<le> ht * wd" using assms(4) by (intro mult_le_mono2) simp
  then have b: "x + ht \<le> ht * wd" unfolding x_def by simp
  have "2 * y < 2 * (ht * wd) + 2 * wd" using lo b wd assms(2,3) by linarith
  then have "r * wd < (ht + 1) * wd" unfolding y_def by simp
  then have "r < ht + 1" by (simp only: mult_less_cancel2)
  then have r_ht: "r \<le> ht" by simp
  have m: "max wd ht = wd" using assms(3) by simp
  have tx: "t * ht = x" unfolding x_def by (simp add: mult.commute)
  show ?thesis
  proof (cases "r = 0")
    case True
    then have "y = 0" unfolding y_def by simp
    with hi have "x \<le> wd" by linarith
    with True assms(1,2,4) m tx show ?thesis
      unfolding r_def [symmetric] by (simp add: fitsInside_def)
  next
    case False
    then have mx: "max 1 r = r" by simp
    have "x \<le> y + wd" using hi by linarith
    moreover have "y \<le> x + wd" using lo by linarith
    ultimately show ?thesis
      unfolding r_def [symmetric] mx
      using r_t r_ht assms m tx by (simp add: fitsInside_def y_def)
  qed
qed

lemma fitsInside_swap: "fitsInside t ht wd ht' wd' \<Longrightarrow> fitsInside t wd ht wd' ht'"
  by (auto simp add: fitsInside_def max.commute)

lemma fitInside_fits:
  assumes "0 < t" "0 < wd" "0 < ht" "t < max wd ht"
  shows "fitsInside t wd ht (fst (fitInside t t wd ht)) (snd (fitInside t t wd ht)) \<and>
         0 < fst (fitInside t t wd ht) \<and> 0 < snd (fitInside t t wd ht)"
proof (cases "ht \<le> wd")
  case True
  with assms have lt: "t < wd" by simp
  then have "fitInside t t wd ht = (t, max 1 (roundDiv (ht * t) wd))"
    using True assms(1) by (simp add: fitInside_def)
  with fits_wide [OF assms(1,3) True lt] assms(1) show ?thesis by simp
next
  case False
  then have lt: "wd < ht" by simp
  with assms have tl: "t < ht" by simp
  have "\<not> ht * t \<le> wd * t" using lt assms(1) by simp
  then have "fitInside t t wd ht = (max 1 (roundDiv (wd * t) ht), t)"
    using tl by (simp add: fitInside_def)
  moreover have "fitsInside t ht wd t (max 1 (roundDiv (wd * t) ht))"
    using lt tl assms by (intro fits_wide) simp_all
  ultimately show ?thesis using assms(1) by (simp add: fitsInside_swap)
qed

lemma decodes_with_sharp:
  "decodes (with_sharp c w) b fmt wd ht =
     (decode c b = Some (fmt, wd, ht) \<and> fmt \<noteq> [] \<and> 0 < wd \<and> 0 < ht)"
  by (auto simp add: decodes_def with_sharp_def model_metadata_def split: option.splits)

lemma resize_with_sharp:
  assumes "decode c b = Some (fmt, wd, ht)"
  shows "sharp_resize (with_sharp c w) b e e \<lparr>fit = ''inside'', withoutEnlargement = True\<rparr> =
           Inr (reencode c b (fst (fitInside (nat e) (nat e) wd ht))
                             (snd (fitInside (nat e) (nat e) wd ht)))"
  using assms by (simp add: with_sharp_def model_resize_def split: prod.splits)

lemma downscaled:
  assumes d: "decodes (with_sharp c w) buffer fmt wd ht"
    and e: "MAX_LONG_EDGE env = Some e" "0 < e" "e < int (max wd ht)"
  shows "\<exists>out wd' ht'.
           processImageBuffer env (with_sharp c w) buffer =
             ([SharpMetadata buffer,
               SharpResize buffer e e \<lparr>fit = ''inside'', withoutEnlargement = True\<rparr>],
              if MAX_IMAGE_SIZE_BYTES < length out
              then Inl (ImageTooLargeAfterProcessing (length out))
              else Inr \<lparr>inlineData = Some \<lparr>mimeType = formatToMime fmt, data = toBase64 out\<rparr>,
                        text_part = None\<rparr>) \<and>
           decodes (with_sharp c w) out fmt wd' ht' \<and> fitsInside (nat e) wd ht wd' ht'"
proof -
  from d have dec: "decode c buffer = Some (fmt, wd, ht)" and pos: "fmt \<noteq> []" "0 < wd" "0 < ht"
    by (simp_all add: decodes_with_sharp)
  define wd' where "wd' = fst (fitInside (nat e) (nat e) wd ht)"
  define ht' where "ht' = snd (fitInside (nat e) (nat e) wd ht)"
  define out where "out = reencode c buffer wd' ht'"
  from e(2,3) have t: "0 < nat e" "nat e < max wd ht" by simp_all
  from fitInside_fits [OF t(1) pos(2,3) t(2)]
  have fits: "fitsInside (nat e) wd ht wd' ht'" and p: "0 < wd'" "0 < ht'"
    unfolding wd'_def ht'_def by simp_all
  then have le: "wd' \<le> wd" "ht' \<le> ht" by (simp_all add: fitsInside_def)
  have "decode c out = Some (fmt, wd', ht')"
    unfolding out_def by (rule codec_coherent [OF dec p(1) le(1) p(2) le(2)])
  then have d': "decodes (with_sharp c w) out fmt wd' ht'"
    using pos(1) p by (simp add: decodes_with_sharp)
  have "processImageBuffer env (with_sharp c w) buffer =
             ([SharpMetadata buffer,
               SharpResize buffer e e \<lparr>fit = ''inside'', withoutEnlargement = True\<rparr>],
              if MAX_IMAGE_SIZE_BYTES < length out
              then Inl (ImageTooLargeAfterProcessing (length out))
              else Inr \<lparr>inlineData = Some \<lparr>mimeType = formatToMime fmt, data = toBase64 out\<rparr>,
                        text_part = None\<rparr>)"
    unfolding decodes_resize [OF d e] resize_with_sharp [OF dec] out_def wd'_def ht'_def
    by simp
  with d' fits show ?thesis by blast
qed

subsection \<open>The example codec\<close>

lemma raw_large: "raw_decode [0, 15, 160, 11, 184] = Some (''png'', 4000, 3000)"
  by (simp add: raw_decode_def)

lemma raw_halved: "raw_decode [0, 8, 0, 6, 0] = Some (''png'', 2048, 1536)"
  by (simp add: raw_decode_def)

lemma raw_decodes_large:
  "decodes (with_sharp raw_codec w) [0, 15, 160, 11, 184] ''png'' 4000 3000"
  by (simp add: decodes_with_sharp decode_raw raw_large)

lemma raw_decodes_halved:
  "decodes (with_sharp raw_codec w) [0, 8, 0, 6, 0] ''png'' 2048 1536"
  by (simp add: decodes_with_sharp decode_raw raw_halved)

lemma fitInside_large: "fitInside 2048 2048 4000 3000 = (2048, 1536)"
  by (simp add: fitInside_def roundDiv_def)

lemma raw_resize_large:
  "sharp_resize (with_sharp raw_codec w) [0, 15, 160, 11, 184] 2048 2048
     \<lparr>fit = ''inside'', withoutEnlargement = True\<rparr> = Inr [0, 8, 0, 6, 0]"
  using resize_with_sharp [of raw_codec "[0, 15, 160, 11, 184]" "''png''" 4000 3000 w 2048]
  by (simp add: decode_raw raw_large fitInside_large reencode_raw raw_reencode_def)

lemma toBase64_raw_halved: "toBase64 [0, 8, 0, 6, 0] = ''AAgABgA=''"
  by (simp add: b64_char_def b64_alphabet_def)

lemma toBase64_raw_large: "toBase64 [0, 15, 160, 11, 184] = ''AA+gC7g=''"
  by (simp add: b64_char_def b64_alphabet_def)

subsection \<open>The resize decision\<close>

text \<open>
  C4, as amended. The threshold is \<^verbatim>\<open>VISION_MAX_LONG_EDGE\<close> read as a decimal
  integer, and 2048 when the variable is unset or empty: an unset threshold does not
  switch the resize off, the threshold zero does. For a decodable image: when the
  threshold is positive and the longer edge exceeds it, the codec is asked for a resize
  into a square box of the threshold, fit inside and never enlarging, and the part
  holds its output after the size check; with the codec of the model, whatever its
  decoder, that output decodes to the format of the input and to a size whose longer
  edge is the threshold, with no edge grown and the ratio kept within the rounding of
  one edge. When the threshold is zero, negative or no number, or the longer edge is at
  most the threshold, the codec is not asked for a resize, and the size check applies
  to the input. An undecodable buffer is rejected whatever the threshold is.
\<close>

theorem resize_decision:
  "(VISION_MAX_LONG_EDGE env = None \<or> VISION_MAX_LONG_EDGE env = Some [] \<longrightarrow>
      MAX_LONG_EDGE env = Some 2048) \<and>
   (VISION_MAX_LONG_EDGE env = Some ''0'' \<longrightarrow> MAX_LONG_EDGE env = Some 0) \<and>
   (decodes w buffer fmt wd ht \<and> MAX_LONG_EDGE env = Some e \<and> 0 < e \<and> e < int (max wd ht) \<longrightarrow>
      processImageBuffer env w buffer =
        ([SharpMetadata buffer,
          SharpResize buffer e e \<lparr>fit = ''inside'', withoutEnlargement = True\<rparr>],
         case sharp_resize w buffer e e \<lparr>fit = ''inside'', withoutEnlargement = True\<rparr> of
           Inl msg \<Rightarrow> Inl (Thrown msg)
         | Inr out \<Rightarrow>
             if MAX_IMAGE_SIZE_BYTES < length out
             then Inl (ImageTooLargeAfterProcessing (length out))
             else Inr \<lparr>inlineData = Some \<lparr>mimeType = formatToMime fmt, data = toBase64 out\<rparr>,
                       text_part = None\<rparr>)) \<and>
   (decodes (with_sharp c w) buffer fmt wd ht \<and> MAX_LONG_EDGE env = Some e \<and> 0 < e \<and>
    e < int (max wd ht) \<longrightarrow>
      (\<exists>out wd' ht'.
         processImageBuffer env (with_sharp c w) buffer =
           ([SharpMetadata buffer,
             SharpResize buffer e e \<lparr>fit = ''inside'', withoutEnlargement = True\<rparr>],
            if MAX_IMAGE_SIZE_BYTES < length out
            then Inl (ImageTooLargeAfterProcessing (length out))
            else Inr \<lparr>inlineData = Some \<lparr>mimeType = formatToMime fmt, data = toBase64 out\<rparr>,
                      text_part = None\<rparr>) \<and>
         decodes (with_sharp c w) out fmt wd' ht' \<and> fitsInside (nat e) wd ht wd' ht')) \<and>
   (decodes w buffer fmt wd ht \<and>
    (MAX_LONG_EDGE env = None \<or>
     (\<exists>e. MAX_LONG_EDGE env = Some e \<and> (e \<le> 0 \<or> int (max wd ht) \<le> e))) \<longrightarrow>
      processImageBuffer env w buffer =
        ([SharpMetadata buffer],
         if MAX_IMAGE_SIZE_BYTES < length buffer
         then Inl (ImageTooLargeAfterProcessing (length buffer))
         else Inr \<lparr>inlineData = Some \<lparr>mimeType = formatToMime fmt, data = toBase64 buffer\<rparr>,
                   text_part = None\<rparr>)) \<and>
   (\<not> (\<exists>fmt wd ht. decodes w buffer fmt wd ht) \<longrightarrow>
      (\<exists>err. processImageBuffer env w buffer = ([SharpMetadata buffer], Inl err) \<and>
             isInvalidImageError err))"
proof (intro conjI impI)
  assume "VISION_MAX_LONG_EDGE env = None \<or> VISION_MAX_LONG_EDGE env = Some []"
  then show "MAX_LONG_EDGE env = Some 2048" by (auto simp add: MAX_LONG_EDGE_def)
next
  assume "VISION_MAX_LONG_EDGE env = Some ''0''"
  then show "MAX_LONG_EDGE env = Some 0" by (simp add: MAX_LONG_EDGE_def parseInt_zero)
next
  assume h: "decodes w buffer fmt wd ht \<and> MAX_LONG_EDGE env = Some e \<and> 0 < e \<and>
             e < int (max wd ht)"
  then show "processImageBuffer env w buffer =
        ([SharpMetadata buffer,
          SharpResize buffer e e \<lparr>fit = ''inside'', withoutEnlargement = True\<rparr>],
         case sharp_resize w buffer e e \<lparr>fit = ''inside'', withoutEnlargement = True\<rparr> of
           Inl msg \<Rightarrow> Inl (Thrown msg)
         | Inr out \<Rightarrow>
             if MAX_IMAGE_SIZE_BYTES < length out
             then Inl (ImageTooLargeAfterProcessing (length out))
             else Inr \<lparr>inlineData = Some \<lparr>mimeType = formatToMime fmt, data = toBase64 out\<rparr>,
                       text_part = None\<rparr>)"
    by (intro decodes_resize [where wd = wd and ht = ht]) simp_all
next
  assume h: "decodes (with_sharp c w) buffer fmt wd ht \<and> MAX_LONG_EDGE env = Some e \<and> 0 < e \<and>
             e < int (max wd ht)"
  then show "\<exists>out wd' ht'.
         processImageBuffer env (with_sharp c w) buffer =
           ([SharpMetadata buffer,
             SharpResize buffer e e \<lparr>fit = ''inside'', withoutEnlargement = True\<rparr>],
            if MAX_IMAGE_SIZE_BYTES < length out
            then Inl (ImageTooLargeAfterProcessing (length out))
            else Inr \<lparr>inlineData = Some \<lparr>mimeType = formatToMime fmt, data = toBase64 out\<rparr>,
                      text_part = None\<rparr>) \<and>
         decodes (with_sharp c w) out fmt wd' ht' \<and> fitsInside (nat e) wd ht wd' ht'"
    by (intro downscaled) simp_all
next
  assume h: "decodes w buffer fmt wd ht \<and>
    (MAX_LONG_EDGE env = None \<or>
     (\<exists>e. MAX_LONG_EDGE env = Some e \<and> (e \<le> 0 \<or> int (max wd ht) \<le> e)))"
  then show "processImageBuffer env w buffer =
        ([SharpMetadata buffer],
         if MAX_IMAGE_SIZE_BYTES < length buffer
         then Inl (ImageTooLargeAfterProcessing (length buffer))
         else Inr \<lparr>inlineData = Some \<lparr>mimeType = formatToMime fmt, data = toBase64 buffer\<rparr>,
                   text_part = None\<rparr>)"
    by (intro decodes_no_resize [where wd = wd and ht = ht]) simp_all
next
  assume "\<not> (\<exists>fmt wd ht. decodes w buffer fmt wd ht)"
  then show "\<exists>err. processImageBuffer env w buffer = ([SharpMetadata buffer], Inl err) \<and>
             isInvalidImageError err"
    by (rule decode_gate)
qed

theorem resize_decision_witness:
  "VISION_MAX_LONG_EDGE unset_env = None \<and> MAX_LONG_EDGE unset_env = Some 2048 \<and>
   VISION_MAX_LONG_EDGE (unset_env\<lparr>VISION_MAX_LONG_EDGE := Some []\<rparr>) = Some [] \<and>
   MAX_LONG_EDGE (unset_env\<lparr>VISION_MAX_LONG_EDGE := Some []\<rparr>) = Some 2048 \<and>
   decodes (with_sharp raw_codec toy_world) [0, 15, 160, 11, 184] ''png'' 4000 3000 \<and>
   processImageBuffer unset_env (with_sharp raw_codec toy_world) [0, 15, 160, 11, 184] =
     ([SharpMetadata [0, 15, 160, 11, 184],
       SharpResize [0, 15, 160, 11, 184] 2048 2048
         \<lparr>fit = ''inside'', withoutEnlargement = True\<rparr>],
      Inr \<lparr>inlineData = Some \<lparr>mimeType = ''image/png'', data = ''AAgABgA=''\<rparr>,
            text_part = None\<rparr>) \<and>
   decodes (with_sharp raw_codec toy_world) (fromBase64 ''AAgABgA='') ''png'' 2048 1536 \<and>
   fitsInside 2048 4000 3000 2048 1536 \<and>
   MAX_LONG_EDGE (unset_env\<lparr>VISION_MAX_LONG_EDGE := Some ''0''\<rparr>) = Some 0 \<and>
   processImageBuffer (unset_env\<lparr>VISION_MAX_LONG_EDGE := Some ''0''\<rparr>)
       (with_sharp raw_codec toy_world) [0, 15, 160, 11, 184] =
     ([SharpMetadata [0, 15, 160, 11, 184]],
      Inr \<lparr>inlineData = Some \<lparr>mimeType = ''image/png'', data = ''AA+gC7g=''\<rparr>,
            text_part = None\<rparr>) \<and>
   processImageBuffer (unset_env\<lparr>VISION_MAX_LONG_EDGE := Some ''0''\<rparr>) offline_world
       [104, 101, 108, 108, 111] =
     ([SharpMetadata [104, 101, 108, 108, 111]],
      Inl (NotValidImageFile ''Input buffer contains unsupported image format''))"
proof -
  let ?zero = "unset_env\<lparr>VISION_MAX_LONG_EDGE := Some ''0''\<rparr>"
  let ?empty = "unset_env\<lparr>VISION_MAX_LONG_EDGE := Some []\<rparr>"
  let ?w = "with_sharp raw_codec toy_world"
  let ?b = "[0, 15, 160, 11, 184] :: bytes"
  have u: "VISION_MAX_LONG_EDGE unset_env = None" by (simp add: unset_env_def)
  have z: "VISION_MAX_LONG_EDGE ?zero = Some ''0''" by simp
  have y: "VISION_MAX_LONG_EDGE ?empty = Some []" by simp
  note r1 = resize_decision [where env = unset_env and w = toy_world and c = raw_codec
      and buffer = ?b and fmt = "''png''" and wd = 4000 and ht = 3000 and e = 2048]
  note r2 = resize_decision [where env = ?zero and w = ?w and buffer = ?b
      and fmt = "''png''" and wd = 4000 and ht = 3000]
  note r3 = resize_decision [where env = ?zero and w = offline_world
      and buffer = "[104, 101, 108, 108, 111]"]
  note r4 = resize_decision [where env = ?empty]
  note r5 = resize_decision [where env = unset_env and w = ?w and buffer = ?b
      and fmt = "''png''" and wd = 4000 and ht = 3000 and e = 2048]
  from r1 u have e: "MAX_LONG_EDGE unset_env = Some 2048" by blast
  from r4 y have e': "MAX_LONG_EDGE ?empty = Some 2048" by blast
  from r2 z have e0: "MAX_LONG_EDGE ?zero = Some 0" by blast
  have d: "decodes ?w ?b ''png'' 4000 3000" by (rule raw_decodes_large)
  from r1 d e obtain out wd' ht' where
    p: "processImageBuffer unset_env ?w ?b =
           ([SharpMetadata ?b,
             SharpResize ?b 2048 2048 \<lparr>fit = ''inside'', withoutEnlargement = True\<rparr>],
            if MAX_IMAGE_SIZE_BYTES < length out
            then Inl (ImageTooLargeAfterProcessing (length out))
            else Inr \<lparr>inlineData = Some \<lparr>mimeType = formatToMime ''png'', data = toBase64 out\<rparr>,
                      text_part = None\<rparr>)"
    and d': "decodes ?w out ''png'' wd' ht'"
    and f: "fitsInside (nat 2048) 4000 3000 wd' ht'"
    by auto
  have a: "processImageBuffer unset_env ?w ?b =
     ([SharpMetadata ?b,
       SharpResize ?b 2048 2048 \<lparr>fit = ''inside'', withoutEnlargement = True\<rparr>],
      Inr \<lparr>inlineData = Some \<lparr>mimeType = ''image/png'', data = ''AAgABgA=''\<rparr>,
            text_part = None\<rparr>)"
    using r5 d e
    by (simp add: raw_resize_large size_defs png_mime toBase64_raw_halved del: toBase64.simps)
  have decoded: "fromBase64 ''AAgABgA='' = [0, 8, 0, 6, 0]"
    using fromBase64_toBase64 [of "[0, 8, 0, 6, 0]"] by (simp only: toBase64_raw_halved)
  from p a have "toBase64 out = ''AAgABgA=''"
    by (simp del: toBase64.simps split: if_splits)
  then have out: "out = [0, 8, 0, 6, 0]"
    using fromBase64_toBase64 [of out] decoded by simp
  from d' have "decode raw_codec out = Some (''png'', wd', ht')"
    by (simp add: decodes_with_sharp)
  then have sz: "wd' = 2048" "ht' = 1536"
    unfolding out by (simp_all add: decode_raw raw_halved)
  from d' have d2: "decodes ?w (fromBase64 ''AAgABgA='') ''png'' 2048 1536"
    unfolding decoded sz out .
  from f have g: "fitsInside 2048 4000 3000 2048 1536"
    unfolding sz by simp
  from r2 e0 d
  have b: "processImageBuffer ?zero ?w ?b =
     ([SharpMetadata ?b],
      Inr \<lparr>inlineData = Some \<lparr>mimeType = ''image/png'', data = ''AA+gC7g=''\<rparr>,
            text_part = None\<rparr>)"
    by (simp add: size_defs png_mime toBase64_raw_large del: toBase64.simps)
  have "\<not> (\<exists>fmt wd ht. decodes offline_world [104, 101, 108, 108, 111] fmt wd ht)"
    by (simp add: decodes_def offline_world_def)
  with r3 obtain err where
    "processImageBuffer ?zero offline_world [104, 101, 108, 108, 111] =
       ([SharpMetadata [104, 101, 108, 108, 111]], Inl err)"
    by blast
  moreover have "processImageBuffer ?zero offline_world [104, 101, 108, 108, 111] =
     ([SharpMetadata [104, 101, 108, 108, 111]],
      Inl (NotValidImageFile ''Input buffer contains unsupported image format''))"
    by (rule processImageBuffer_undecodable) (simp add: offline_world_def)
  ultimately have c: "processImageBuffer ?zero offline_world [104, 101, 108, 108, 111] =
     ([SharpMetadata [104, 101, 108, 108, 111]],
      Inl (NotValidImageFile ''Input buffer contains unsupported image format''))"
    by simp
  from u e y e' d a d2 g e0 b c
  show ?thesis by (simp only: simp_thms)
qed

text \<open>
  The claim C4 as stated fails: with the variable unset, an image of 4096 by 4096
  pixels is resized to the default threshold of 2048.
\<close>

theorem unset_threshold_resizes:
  "VISION_MAX_LONG_EDGE unset_env = None \<and>
   decodes toy_world [16, 0, 2] ''png'' 4096 4096 \<and>
   processImageBuffer unset_env toy_world [16, 0, 2] =
     ([SharpMetadata [16, 0, 2],
       SharpResize [16, 0, 2] 2048 2048 \<lparr>fit = ''inside'', withoutEnlargement = True\<rparr>],
      Inr \<lparr>inlineData = Some \<lparr>mimeType = ''image/png'', data = ''CAA=''\<rparr>, text_part = None\<rparr>)"
proof -
  have "processImageBuffer unset_env toy_world [16, 0, 2] =
     ([SharpMetadata [16, 0, 2],
       SharpResize [16, 0, 2] 2048 2048 \<lparr>fit = ''inside'', withoutEnlargement = True\<rparr>],
      Inr \<lparr>inlineData = Some \<lparr>mimeType = formatToMime ''png'', data = toBase64 [8, 0]\<rparr>,
            text_part = None\<rparr>)"
    using decodes_resize [OF toy_decodes_large unset_edge]
    by (simp add: toy_resize_large size_defs del: toBase64.simps)
  then show ?thesis
    unfolding png_mime toBase64_halved
    using toy_decodes_large by (simp add: unset_env_def)
qed

subsection \<open>The log of the image loop and of the provider call\<close>

lemma posted_processImageBuffer: "posted (fst (processImageBuffer env w b)) = []"
  by (auto simp add: processImageBuffer_def posted_io_bind io_return_def io_throw_def
      io_call_def Let_def split: sum.splits option.splits)

lemma posted_partFromDataURI: "posted (fst (partFromDataURI img)) = []"
  by (auto simp add: partFromDataURI_def io_return_def io_throw_def split: option.splits)

lemma posted_partFromURL: "posted (fst (partFromURL env w img)) = []"
  by (auto simp add: partFromURL_def posted_io_bind posted_processImageBuffer io_return_def
      io_throw_def io_call_def io_pure_def Let_def split: sum.splits option.splits)

lemma posted_partFromFile: "posted (fst (partFromFile env w p)) = []"
  by (auto simp add: partFromFile_def posted_io_bind posted_processImageBuffer io_call_def
      split: sum.splits)

lemma posted_toPart: "posted (fst (toPart env w img)) = []"
  by (auto simp add: toPart_def posted_io_bind posted_partFromDataURI posted_partFromURL
      posted_partFromFile io_return_def io_throw_def io_pure_def split: sum.splits)

lemma posted_images: "posted (concat (map (\<lambda>img. fst (toPart env w img)) imgs)) = []"
  by (induction imgs) (simp_all add: posted_append posted_toPart)

lemma convertAll_all_succeed:
  assumes "list_all2 (\<lambda>img p. snd (toPart env w img) = Inr p) imgs ps"
  shows "convertAll env w acc imgs =
           (concat (map (\<lambda>img. fst (toPart env w img)) imgs), Inr (acc @ ps))"
  using assms
proof (induction imgs ps arbitrary: acc rule: list_all2_induct)
  case Nil
  show ?case by (simp add: io_return_def)
next
  case (Cons img imgs p ps)
  obtain t where t: "toPart env w img = (t, Inr p)"
    using Cons.hyps(1) by (cases "toPart env w img") auto
  then show ?case by (simp add: io_bind_Inr Cons.IH)
qed

lemma fst_readResponse: "fst (readResponse f resp) = []"
  by (auto simp add: readResponse_def io_bind_def io_return_def io_throw_def
      split: option.splits sum.splits prod.splits)

lemma posted_callGeminiAIStudio:
  "posted (fst (callGeminiAIStudio env w ps)) = [] \<or>
   (\<exists>r. posted (fst (callGeminiAIStudio env w ps)) = [r] \<and>
        contents r = [\<lparr>role = ''user'', parts = ps\<rparr>])"
  by (auto simp add: callGeminiAIStudio_def posted_io_bind fst_readResponse io_throw_def
      io_call_def Let_def split: option.splits sum.splits)

lemma posted_callGeminiVertex:
  "posted (fst (callGeminiVertex env w ps)) = [] \<or>
   (\<exists>r. posted (fst (callGeminiVertex env w ps)) = [r] \<and>
        contents r = [\<lparr>role = ''user'', parts = ps\<rparr>])"
  by (auto simp add: callGeminiVertex_def posted_io_bind fst_readResponse io_throw_def
      io_call_def Let_def split: option.splits sum.splits)

lemma posted_callGemini:
  "posted (fst (callGemini env w ps)) = [] \<or>
   (\<exists>r. posted (fst (callGemini env w ps)) = [r] \<and>
        contents r = [\<lparr>role = ''user'', parts = ps\<rparr>])"
  using posted_callGeminiAIStudio [of env w ps] posted_callGeminiVertex [of env w ps]
  by (simp add: callGemini_def)

lemma callGeminiAIStudio_posts:
  assumes "API_KEY env = Some key" "key \<noteq> []"
  shows "map contents (posted (fst (callGeminiAIStudio env w ps))) =
           [[\<lparr>role = ''user'', parts = ps\<rparr>]]"
  using assms
  by (auto simp add: callGeminiAIStudio_def posted_io_bind fst_readResponse io_call_def Let_def
      split: sum.splits)

lemma callGeminiVertex_posts:
  assumes "GOOGLE_CLOUD_PROJECT env = Some project" "project \<noteq> []"
    "getVertexAccessToken w = Inr token"
  shows "map contents (posted (fst (callGeminiVertex env w ps))) =
           [[\<lparr>role = ''user'', parts = ps\<rparr>]]"
  using assms
  by (auto simp add: callGeminiVertex_def posted_io_bind fst_readResponse io_call_def Let_def
      split: sum.splits)

lemma handler_blank:
  assumes "blank (instruction req)"
  shows "handler env w req = ([], Inl (if tool_name req \<noteq> ''vision.analyze''
            then UnknownTool (tool_name req)
            else if images req = NoImages \<or> images req = ImageString [] then MissingImages
            else MissingInstruction))"
  using assms by (auto simp add: handler_def blank_def io_throw_def split: option.splits)

lemma handler_list:
  assumes "tool_name req = ''vision.analyze''" "images req = ImageArray imgs"
    "instruction req = Some instr" "instr \<noteq> []" "trim instr \<noteq> []"
  shows "handler env w req =
     (if length imgs = 0 then io_throw AtLeastOneImage
      else if MAX_IMAGES < length imgs then io_throw (TooManyImages (length imgs))
      else io_bind (convertAll env w [] imgs)
             (\<lambda>ps. callGemini env w (ps @ [\<lparr>inlineData = None, text_part = Some instr\<rparr>])))"
  using assms by (simp add: handler_def)

lemma handler_all_succeed:
  assumes "tool_name req = ''vision.analyze''" and "images req = ImageArray imgs"
    and "1 \<le> length imgs" and "length imgs \<le> 10"
    and "list_all2 (\<lambda>img p. snd (toPart env w img) = Inr p) imgs ps"
    and "\<not> blank (instruction req)"
  shows "handler env w req =
          (concat (map (\<lambda>img. fst (toPart env w img)) imgs)
             @ fst (callGemini env w (ps @ [\<lparr>inlineData = None, text_part = instruction req\<rparr>])),
           snd (callGemini env w (ps @ [\<lparr>inlineData = None, text_part = instruction req\<rparr>])))"
proof -
  from assms(6) obtain instr where i: "instruction req = Some instr" "instr \<noteq> []"
    "trim instr \<noteq> []"
    by (auto simp add: blank_def split: option.splits)
  from assms(3,4) have n: "length imgs \<noteq> 0" "\<not> MAX_IMAGES < length imgs"
    by (auto simp add: MAX_IMAGES_def)
  show ?thesis
    unfolding handler_list [OF assms(1,2) i] convertAll_all_succeed [OF assms(5)]
    using n by (simp add: io_bind_Inr i(1))
qed

subsection \<open>The parts of the request\<close>

text \<open>
  C3. An invocation with a list of \<open>n\<close> images, \<open>n\<close> from 1 to 10, each of which
  \<open>toPart\<close> turns into a part: every request sent to the provider has one content of
  role \<^verbatim>\<open>user\<close> whose parts are the \<open>n\<close> image parts in the order of the list,
  followed by one text part holding the instruction, \<open>n + 1\<close> parts in all; at most
  one request is sent; and with an instruction that is not blank and a configured
  provider exactly one is sent.
\<close>

theorem request_parts_in_order:
  assumes "tool_name req = ''vision.analyze''" and "images req = ImageArray imgs"
    and "1 \<le> length imgs" and "length imgs \<le> 10"
    and "list_all2 (\<lambda>img p. snd (toPart env w img) = Inr p) imgs ps"
  shows
    "(\<forall>r \<in> set (posted (fst (handler env w req))).
        contents r =
          [\<lparr>role = ''user'',
            parts = ps @ [\<lparr>inlineData = None, text_part = instruction req\<rparr>]\<rparr>]) \<and>
     length (posted (fst (handler env w req))) \<le> 1 \<and>
     length (ps @ [\<lparr>inlineData = None, text_part = instruction req\<rparr>]) = length imgs + 1 \<and>
     (\<not> blank (instruction req) \<longrightarrow>
        handler env w req =
          (concat (map (\<lambda>img. fst (toPart env w img)) imgs)
             @ fst (callGemini env w (ps @ [\<lparr>inlineData = None, text_part = instruction req\<rparr>])),
           snd (callGemini env w (ps @ [\<lparr>inlineData = None, text_part = instruction req\<rparr>])))) \<and>
     (\<not> blank (instruction req) \<and> PROVIDER env \<noteq> ''vertex'' \<and>
      (\<exists>key. API_KEY env = Some key \<and> key \<noteq> []) \<longrightarrow>
        map contents (posted (fst (handler env w req))) =
          [[\<lparr>role = ''user'',
             parts = ps @ [\<lparr>inlineData = None, text_part = instruction req\<rparr>]\<rparr>]]) \<and>
     (\<not> blank (instruction req) \<and> PROVIDER env = ''vertex'' \<and>
      (\<exists>project. GOOGLE_CLOUD_PROJECT env = Some project \<and> project \<noteq> []) \<and>
      (\<exists>token. getVertexAccessToken w = Inr token) \<longrightarrow>
        map contents (posted (fst (handler env w req))) =
          [[\<lparr>role = ''user'',
             parts = ps @ [\<lparr>inlineData = None, text_part = instruction req\<rparr>]\<rparr>]])"
proof -
  let ?body = "ps @ [\<lparr>inlineData = None, text_part = instruction req\<rparr>]"
  have sent: "posted (fst (handler env w req)) = posted (fst (callGemini env w ?body))"
    if "\<not> blank (instruction req)"
    unfolding handler_all_succeed [OF assms that]
    by (simp add: posted_append posted_images)
  have none: "posted (fst (handler env w req)) = []" if "blank (instruction req)"
    using handler_blank [OF that] by simp
  have a: "\<forall>r \<in> set (posted (fst (handler env w req))).
             contents r = [\<lparr>role = ''user'', parts = ?body\<rparr>]"
    using sent none posted_callGemini [of env w ?body]
    by (cases "blank (instruction req)") auto
  have b: "length (posted (fst (handler env w req))) \<le> 1"
    using sent none posted_callGemini [of env w ?body]
    by (cases "blank (instruction req)") auto
  have c: "length ?body = length imgs + 1"
    using list_all2_lengthD [OF assms(5)] by simp
  have d: "map contents (posted (fst (handler env w req))) = [[\<lparr>role = ''user'', parts = ?body\<rparr>]]"
    if "\<not> blank (instruction req)" "PROVIDER env \<noteq> ''vertex''"
      "\<exists>key. API_KEY env = Some key \<and> key \<noteq> []"
    using that callGeminiAIStudio_posts [of env _ w ?body]
    by (auto simp add: sent callGemini_def)
  have e: "map contents (posted (fst (handler env w req))) = [[\<lparr>role = ''user'', parts = ?body\<rparr>]]"
    if "\<not> blank (instruction req)" "PROVIDER env = ''vertex''"
      "\<exists>project. GOOGLE_CLOUD_PROJECT env = Some project \<and> project \<noteq> []"
      "\<exists>token. getVertexAccessToken w = Inr token"
    using that callGeminiVertex_posts [of env _ w _ ?body]
    by (auto simp add: sent callGemini_def)
  from a b c d e handler_all_succeed [OF assms] show ?thesis by blast
qed

theorem request_parts_in_order_witness:
  "map contents
     (posted (fst (handler ais_env toy_world
        \<lparr>tool_name = ''vision.analyze'',
         images = ImageArray [''data:image/png;base64,AAcB'', ''/tmp/a.jpg'', ''https://x/y.png''],
         instruction = Some ''describe''\<rparr>))) =
   [[\<lparr>role = ''user'',
      parts =
        [\<lparr>inlineData = Some \<lparr>mimeType = ''image/png'', data = ''AAcB''\<rparr>, text_part = None\<rparr>,
         \<lparr>inlineData = Some \<lparr>mimeType = ''image/png'', data = ''CAA=''\<rparr>, text_part = None\<rparr>,
         \<lparr>inlineData = Some \<lparr>mimeType = ''image/png'', data = ''AAcB''\<rparr>, text_part = None\<rparr>,
         \<lparr>inlineData = None, text_part = Some ''describe''\<rparr>]\<rparr>]]"
proof -
  let ?req = "\<lparr>tool_name = ''vision.analyze'',
         images = ImageArray [''data:image/png;base64,AAcB'', ''/tmp/a.jpg'', ''https://x/y.png''],
         instruction = Some ''describe''\<rparr>"
  let ?ps = "[\<lparr>inlineData = Some \<lparr>mimeType = ''image/png'', data = ''AAcB''\<rparr>, text_part = None\<rparr>,
         \<lparr>inlineData = Some \<lparr>mimeType = ''image/png'', data = ''CAA=''\<rparr>, text_part = None\<rparr>,
         \<lparr>inlineData = Some \<lparr>mimeType = ''image/png'', data = ''AAcB''\<rparr>, text_part = None\<rparr>]"
  have ok: "list_all2 (\<lambda>img p. snd (toPart ais_env toy_world img) = Inr p)
              [''data:image/png;base64,AAcB'', ''/tmp/a.jpg'', ''https://x/y.png''] ?ps"
    by (simp add: toy_data_part toy_path_part [OF ais_edge] toy_url_part [OF ais_edge])
  have cfg: "PROVIDER ais_env \<noteq> ''vertex'' \<and> (\<exists>key. API_KEY ais_env = Some key \<and> key \<noteq> [])"
    by (simp add: ais_env_def unset_env_def PROVIDER_def API_KEY_def orDefault_def)
  have p1: "tool_name ?req = ''vision.analyze''"
    and p2: "images ?req =
               ImageArray [''data:image/png;base64,AAcB'', ''/tmp/a.jpg'', ''https://x/y.png'']"
    and p3: "1 \<le> length [''data:image/png;base64,AAcB'', ''/tmp/a.jpg'', ''https://x/y.png'']"
    and p4: "length [''data:image/png;base64,AAcB'', ''/tmp/a.jpg'', ''https://x/y.png''] \<le> 10"
    by simp_all
  have "\<not> blank (instruction ?req) \<and> PROVIDER ais_env \<noteq> ''vertex'' \<and>
        (\<exists>key. API_KEY ais_env = Some key \<and> key \<noteq> []) \<longrightarrow>
        map contents (posted (fst (handler ais_env toy_world ?req))) =
          [[\<lparr>role = ''user'',
             parts = ?ps @ [\<lparr>inlineData = None, text_part = instruction ?req\<rparr>]\<rparr>]]"
    using request_parts_in_order [OF p1 p2 p3 p4 ok] by blast
  moreover have "\<not> blank (instruction ?req)"
    using not_blank_describe by simp
  ultimately show ?thesis using cfg by simp
qed

subsection \<open>The bound on the number of images\<close>

text \<open>
  C8, as amended. An invocation with a list of more than 10 images fails with nothing
  in the log, so before any fetch, read or decode: with the error \<open>TooManyImages\<close>
  that reports the count when the instruction is not blank, and with
  \<open>MissingInstruction\<close> when it is, since the instruction is checked first.
\<close>

theorem too_many_images_rejected:
  assumes "tool_name req = ''vision.analyze''" and "images req = ImageArray imgs"
    and "10 < length imgs"
  shows "handler env w req =
           ([], Inl (if blank (instruction req) then MissingInstruction
                     else TooManyImages (length imgs)))"
proof (cases "blank (instruction req)")
  case True
  with handler_blank [OF True, of env w] assms(1,2) show ?thesis by simp
next
  case False
  then obtain instr where i: "instruction req = Some instr" "instr \<noteq> []" "trim instr \<noteq> []"
    by (auto simp add: blank_def split: option.splits)
  from assms(3) have "length imgs \<noteq> 0" "MAX_IMAGES < length imgs"
    by (auto simp add: MAX_IMAGES_def)
  with False show ?thesis
    unfolding handler_list [OF assms(1,2) i] by (simp add: io_throw_def)
qed

theorem too_many_images_rejected_witness:
  "handler unset_env toy_world
     \<lparr>tool_name = ''vision.analyze'', images = ImageArray (replicate 11 ''/tmp/a.jpg''),
      instruction = Some ''describe''\<rparr> = ([], Inl (TooManyImages 11))"
  using too_many_images_rejected [of
      "\<lparr>tool_name = ''vision.analyze'', images = ImageArray (replicate 11 ''/tmp/a.jpg''),
        instruction = Some ''describe''\<rparr>" "replicate 11 ''/tmp/a.jpg''" unset_env toy_world]
  by (simp add: not_blank_describe)

text \<open>
  The claim C8 as stated fails: eleven images with an empty instruction are refused
  for the instruction, not for the count.
\<close>

theorem blank_instruction_reported_first:
  "handler unset_env toy_world
     \<lparr>tool_name = ''vision.analyze'', images = ImageArray (replicate 11 ''/tmp/a.jpg''),
      instruction = Some []\<rparr> = ([], Inl MissingInstruction)"
  by (simp add: handler_def io_throw_def)

subsection \<open>One image given as a string\<close>

text \<open>
  C10, as amended. For every string \<open>s\<close> that is not empty, an invocation with
  \<open>images\<close> given as \<open>s\<close> is the invocation with \<open>images\<close> given as the list of
  \<open>s\<close> alone: the same log and the same result or error. For the empty string both
  fail with nothing in the log.
\<close>

theorem single_string_as_singleton:
  "(s \<noteq> [] \<longrightarrow>
      handler env w (req\<lparr>images := ImageString s\<rparr>) =
      handler env w (req\<lparr>images := ImageArray [s]\<rparr>)) \<and>
   fst (handler env w (req\<lparr>images := ImageString []\<rparr>)) = [] \<and>
   fst (handler env w (req\<lparr>images := ImageArray [[]]\<rparr>)) = [] \<and>
   isl (snd (handler env w (req\<lparr>images := ImageString []\<rparr>))) \<and>
   isl (snd (handler env w (req\<lparr>images := ImageArray [[]]\<rparr>)))"
proof -
  have a: "handler env w (req\<lparr>images := ImageString s\<rparr>) =
           handler env w (req\<lparr>images := ImageArray [s]\<rparr>)" if "s \<noteq> []"
    using that by (simp add: handler_def split: option.splits)
  have b: "handler env w (req\<lparr>images := ImageString []\<rparr>) =
             ([], Inl (if tool_name req \<noteq> ''vision.analyze'' then UnknownTool (tool_name req)
                       else MissingImages))"
    by (simp add: handler_def io_throw_def)
  have c: "handler env w (req\<lparr>images := ImageArray [[]]\<rparr>) =
             ([], Inl (if tool_name req \<noteq> ''vision.analyze'' then UnknownTool (tool_name req)
                       else if blank (instruction req) then MissingInstruction
                       else UnsupportedImageFormat []))"
    by (auto simp add: handler_def blank_def io_throw_def toPart_empty io_bind_Inl
        MAX_IMAGES_def split: option.splits)
  from a b c show ?thesis by simp
qed

theorem single_string_as_singleton_witness:
  "''/tmp/a.jpg'' \<noteq> [] \<and>
   handler unset_env offline_world
     \<lparr>tool_name = ''vision.analyze'', images = ImageString ''/tmp/a.jpg'',
      instruction = Some ''describe''\<rparr> =
   handler unset_env offline_world
     \<lparr>tool_name = ''vision.analyze'', images = ImageArray [''/tmp/a.jpg''],
      instruction = Some ''describe''\<rparr>"
  using single_string_as_singleton [of "''/tmp/a.jpg''" unset_env offline_world
      "\<lparr>tool_name = ''vision.analyze'', images = NoImages, instruction = Some ''describe''\<rparr>"]
  by simp

text \<open>
  The claim C10 as stated fails at the empty string: given as a string it is a
  missing parameter, given in a list it is an unsupported reference.
\<close>

theorem empty_string_differs_from_singleton:
  "handler unset_env offline_world
     \<lparr>tool_name = ''vision.analyze'', images = ImageString [],
      instruction = Some ''describe''\<rparr> = ([], Inl MissingImages) \<and>
   handler unset_env offline_world
     \<lparr>tool_name = ''vision.analyze'', images = ImageArray [[]],
      instruction = Some ''describe''\<rparr> = ([], Inl (UnsupportedImageFormat []))"
proof -
  have "trim ''describe'' \<noteq> []"
    by (simp add: trim_def isWhiteSpace_def)
  then show ?thesis
    by (simp add: handler_def io_throw_def toPart_empty io_bind_Inl MAX_IMAGES_def)
qed

subsection \<open>The text of the answer\<close>





lemma getProp_null: "getProp JNull k = None"
  by (simp add: getProp_def)















end
